theory Spec2Isabelle
  imports Main "HOL-Library.Word"
begin

section \<open>Data model of \<^verbatim>\<open>src/index.ts\<close>\<close>

text \<open>
  The script is glue code over three SDKs and a helper module \<^verbatim>\<open>./utils\<close>. The values it
  handles are modelled as the script sees them: a public key is a wrapper around bytes, a
  keypair holds a public key, a transaction is a list of instructions with a fee payer.
  The account and argument objects handed to the instruction builders of the Bubblegum
  SDK are records; their field names carry a suffix naming the builder
  (\<open>_ct\<close> create tree, \<open>_mint\<close>, \<open>_xfer\<close> transfer, \<open>_burn\<close>), since the same field
  name occurs in several of them. The numbers of the script (depths, sizes, leaf ids) are
  whole numbers; they are integers here, and natural numbers where the source fixes them.
  An error is any value that can be thrown.
\<close>

type_synonym bytes = "8 word list"

datatype error = Error string

datatype PublicKey = PublicKey (toBuffer: bytes)

record Keypair =
  publicKey :: PublicKey
  secretKey :: bytes

record Connection =
  rpcEndpoint :: string
  rpcCommitment :: string

record ConfirmOptions =
  commitment :: string
  skipPreflight :: bool

record ValidDepthSizePair =
  maxDepth :: nat
  maxBufferSize :: nat

record AccountMeta =
  pubkey :: PublicKey
  isSigner :: bool
  isWritable :: bool

text \<open>The metadata object built by \<^verbatim>\<open>createCompressedNFTMetadata\<close> of \<^verbatim>\<open>./utils\<close> is
  opaque to the script; it is passed on unchanged.\<close>

datatype MetadataArgs = MetadataArgs string

record CreateTreeAccounts =
  treeAuthority_ct :: PublicKey
  merkleTree_ct :: PublicKey
  payer_ct :: PublicKey
  treeCreator_ct :: PublicKey
  logWrapper_ct :: PublicKey
  compressionProgram_ct :: PublicKey

record CreateTreeArgs =
  maxBufferSize_ct :: nat
  maxDepth_ct :: nat
  public_ct :: bool

record MintV1Accounts =
  payer_mint :: PublicKey
  merkleTree_mint :: PublicKey
  treeAuthority_mint :: PublicKey
  treeDelegate_mint :: PublicKey
  leafOwner_mint :: PublicKey
  leafDelegate_mint :: PublicKey
  compressionProgram_mint :: PublicKey
  logWrapper_mint :: PublicKey

record MintV1Args =
  message_mint :: MetadataArgs

record TransferAccounts =
  merkleTree_xfer :: PublicKey
  treeAuthority_xfer :: PublicKey
  leafOwner_xfer :: PublicKey
  leafDelegate_xfer :: PublicKey
  newLeafOwner_xfer :: PublicKey
  logWrapper_xfer :: PublicKey
  compressionProgram_xfer :: PublicKey
  anchorRemainingAccounts_xfer :: "AccountMeta list"

record TransferArgs =
  root_xfer :: bytes
  dataHash_xfer :: bytes
  creatorHash_xfer :: bytes
  nonce_xfer :: int
  index_xfer :: int

record BurnAccounts =
  treeAuthority_burn :: PublicKey
  leafOwner_burn :: PublicKey
  leafDelegate_burn :: PublicKey
  merkleTree_burn :: PublicKey
  logWrapper_burn :: PublicKey
  compressionProgram_burn :: PublicKey
  anchorRemainingAccounts_burn :: "AccountMeta list"

record BurnArgs =
  root_burn :: bytes
  dataHash_burn :: bytes
  creatorHash_burn :: bytes
  nonce_burn :: int
  index_burn :: int

text \<open>
  \<open>TransactionInstruction\<close> is the SDK's raw instruction object: program id, account
  keys, data. An instruction of a transaction is either such a raw object handed back by
  an SDK call (\<^verbatim>\<open>createAllocTreeIx\<close> yields one) or the application of one of the four
  Bubblegum builders to the objects the script passes it.
\<close>

datatype TransactionInstruction = TransactionInstruction PublicKey "AccountMeta list" bytes

datatype instruction =
    Raw TransactionInstruction
  | CreateTreeInstruction CreateTreeAccounts CreateTreeArgs PublicKey
  | MintV1Instruction MintV1Accounts MintV1Args
  | TransferInstruction TransferAccounts TransferArgs PublicKey
  | BurnInstruction BurnAccounts BurnArgs PublicKey

record Transaction =
  instructions :: "instruction list"
  feePayer :: "PublicKey option"

definition new_Connection :: "string \<Rightarrow> string \<Rightarrow> Connection" where
  "new_Connection endpoint commitmentLevel =
     \<lparr>rpcEndpoint = endpoint, rpcCommitment = commitmentLevel\<rparr>"

definition new_Transaction :: Transaction where
  "new_Transaction = \<lparr>instructions = [], feePayer = None\<rparr>"

definition add :: "Transaction \<Rightarrow> instruction list \<Rightarrow> Transaction" where
  "add tx ixs = tx\<lparr>instructions := instructions tx @ ixs\<rparr>"

text \<open>What the indexing API answers: the asset record of \<^verbatim>\<open>getAsset\<close> (of which the script
  reads \<open>compression\<close> and \<open>ownership\<close>) and the proof record of \<^verbatim>\<open>getAssetProof\<close>
  (\<open>proof\<close>, \<open>root\<close>). A delegate may be absent.\<close>

record Compression =
  tree :: string
  data_hash :: string
  creator_hash :: string
  leaf_id :: int

record Ownership =
  owner :: string
  delegate :: "string option"

datatype HeliusResult =
    AssetData Compression Ownership
  | AssetProofData "string list" string

record ConcurrentMerkleTreeAccount =
  getAuthority :: PublicKey
  getCanopyDepth :: int

section \<open>Calls that leave the script, and the trace of a run\<close>

text \<open>
  Every call of an \<^verbatim>\<open>async\<close> function defined outside \<^verbatim>\<open>index.ts\<close> is a request. A run
  is observed through its trace: a request is called, later it is fulfilled with a value
  or rejected with an error, and lines are written to the console.
\<close>

datatype request =
    GetOrCreateKeypair string
  | AirdropSolIfNeeded PublicKey
  | CreateAllocTreeIx Connection PublicKey PublicKey ValidDepthSizePair int
  | SendAndConfirmTransaction Connection Transaction "Keypair list" ConfirmOptions
  | ExtractAssetId Connection string PublicKey
  | HeliusApi string string
  | FromAccountAddress Connection PublicKey

datatype response =
    RKeypair Keypair
  | RInstruction TransactionInstruction
  | RSignature string
  | RPublicKey PublicKey
  | RHelius HeliusResult
  | RTreeAccount ConcurrentMerkleTreeAccount

datatype event =
    Call request
  | Fulfilled request response
  | Rejected request error
  | ConsoleLog "string list"
  | ConsoleError string error

text \<open>
  The environment holds everything the script imports and does not define: the constants
  and the synchronous functions of the SDKs (program ids, \<^verbatim>\<open>clusterApiUrl\<close>,
  \<^verbatim>\<open>toBase58\<close>, the constructor \<^verbatim>\<open>new PublicKey(string)\<close>, which throws on a string that
  is not a key, \<^verbatim>\<open>findProgramAddressSync\<close>, \<^verbatim>\<open>Keypair.generate\<close>), the helpers of
  \<^verbatim>\<open>./utils\<close> (\<^verbatim>\<open>getOrCreateKeypair\<close>, \<^verbatim>\<open>airdropSolIfNeeded\<close>, \<^verbatim>\<open>heliusApi\<close>,
  \<^verbatim>\<open>createCompressedNFTMetadata\<close>, \<^verbatim>\<open>extractAssetId\<close>), and one oracle for each
  request. An oracle sees the trace so far, so the answer to a request may depend on
  everything that happened before it; quantifying over the environment covers every
  behaviour of the network, the indexing service and the wallet files. The call of
  \<^verbatim>\<open>airdropSolIfNeeded\<close> has no oracle: the script never looks at its outcome.
  \<open>settlesFirst\<close> tells which of two requests in flight settles first (\<open>True\<close>: the
  first one issued).
\<close>

record env =
  BUBBLEGUM_PROGRAM_ID :: PublicKey
  SPL_NOOP_PROGRAM_ID :: PublicKey
  SPL_ACCOUNT_COMPRESSION_PROGRAM_ID :: PublicKey
  clusterApiUrl :: "string \<Rightarrow> string"
  toBase58 :: "PublicKey \<Rightarrow> string"
  newPublicKey :: "string \<Rightarrow> error + PublicKey"
  findProgramAddressSync :: "bytes list \<Rightarrow> PublicKey \<Rightarrow> PublicKey \<times> nat"
  createCompressedNFTMetadata :: "PublicKey \<Rightarrow> MetadataArgs"
  generate :: "event list \<Rightarrow> Keypair"
  getOrCreateKeypair :: "event list \<Rightarrow> string \<Rightarrow> error + Keypair"
  createAllocTreeIx ::
    "event list \<Rightarrow> Connection \<Rightarrow> PublicKey \<Rightarrow> PublicKey \<Rightarrow> ValidDepthSizePair \<Rightarrow> int
      \<Rightarrow> error + TransactionInstruction"
  sendAndConfirmTransaction ::
    "event list \<Rightarrow> Connection \<Rightarrow> Transaction \<Rightarrow> Keypair list \<Rightarrow> ConfirmOptions
      \<Rightarrow> error + string"
  extractAssetId :: "event list \<Rightarrow> Connection \<Rightarrow> string \<Rightarrow> PublicKey \<Rightarrow> error + PublicKey"
  heliusApi :: "event list \<Rightarrow> string \<Rightarrow> string \<Rightarrow> error + HeliusResult"
  fromAccountAddress ::
    "event list \<Rightarrow> Connection \<Rightarrow> PublicKey \<Rightarrow> error + ConcurrentMerkleTreeAccount"
  settlesFirst :: "event list \<Rightarrow> bool"

section \<open>Sequencing, exceptions and awaits\<close>

text \<open>
  A piece of the script is a function from the trace so far to its outcome (\<open>Inl\<close>: the
  error thrown, \<open>Inr\<close>: the value) and the events it adds to the trace.
\<close>

type_synonym 'a task = "event list \<Rightarrow> (error + 'a) \<times> event list"

definition returnE :: "'a \<Rightarrow> 'a task" where
  "returnE x h = (Inr x, [])"

definition throwE :: "error \<Rightarrow> 'a task" where
  "throwE e h = (Inl e, [])"

text \<open>\<open>liftE\<close>: a synchronous expression that may throw. \<open>sync\<close>: a synchronous call
  whose value depends on the world (\<^verbatim>\<open>Keypair.generate()\<close>). \<open>emit\<close>: a line on the
  console, or a call that is not awaited.\<close>

definition liftE :: "error + 'a \<Rightarrow> 'a task" where
  "liftE r h = (r, [])"

definition sync :: "(event list \<Rightarrow> 'a) \<Rightarrow> 'a task" where
  "sync f h = (Inr (f h), [])"

definition emit :: "event \<Rightarrow> unit task" where
  "emit ev h = (Inr (), [ev])"

definition bindE :: "'a task \<Rightarrow> ('a \<Rightarrow> 'b task) \<Rightarrow> 'b task" where
  "bindE m f h =
     (case m h of
        (Inl e, t) \<Rightarrow> (Inl e, t)
      | (Inr x, t) \<Rightarrow> (case f x (h @ t) of (r, t') \<Rightarrow> (r, t @ t')))"

definition tryCatch :: "'a task \<Rightarrow> (error \<Rightarrow> 'a task) \<Rightarrow> 'a task" where
  "tryCatch m handler h =
     (case m h of
        (Inl e, t) \<Rightarrow> (case handler e (h @ t) of (r, t') \<Rightarrow> (r, t @ t'))
      | (Inr x, t) \<Rightarrow> (Inr x, t))"

text \<open>\<^verbatim>\<open>await f(args)\<close>: the request is called, and the script goes on only when it has
  settled; a rejection is thrown at the await.\<close>

definition await :: "request \<Rightarrow> ('a \<Rightarrow> response) \<Rightarrow> (event list \<Rightarrow> error + 'a) \<Rightarrow> 'a task" where
  "await r wrap oracle h =
     (case oracle (h @ [Call r]) of
        Inl e \<Rightarrow> (Inl e, [Call r, Rejected r e])
      | Inr v \<Rightarrow> (Inr v, [Call r, Fulfilled r (wrap v)]))"

text \<open>\<^verbatim>\<open>f(args)\<close> without \<^verbatim>\<open>await\<close>: the request is called and the script goes on at once;
  how the request settles is not seen by the script.\<close>

definition callNoAwait :: "request \<Rightarrow> unit task" where
  "callNoAwait r = emit (Call r)"

text \<open>
  \<^verbatim>\<open>await Promise.all([f(a), g(b)])\<close>: both calls are evaluated, so both requests are in
  flight, before the script waits. The promise rejects as soon as one request rejects,
  with that request's error, and fulfils when both have fulfilled. The trace holds what
  has settled when the script resumes: when both requests reject, the promise carries the
  error of the one that rejected first, and the rejection of the other, which the script
  never sees, is not in the trace.
\<close>

definition awaitAll2 ::
  "bool \<Rightarrow> request \<Rightarrow> (event list \<Rightarrow> error + 'a) \<Rightarrow> request \<Rightarrow> (event list \<Rightarrow> error + 'a)
     \<Rightarrow> ('a \<Rightarrow> response) \<Rightarrow> ('a \<times> 'a) task" where
  "awaitAll2 firstWins r1 oracle1 r2 oracle2 wrap h =
     (let h' = h @ [Call r1, Call r2] in
      case (oracle1 h', oracle2 h') of
        (Inr v1, Inr v2) \<Rightarrow>
          (Inr (v1, v2),
           [Call r1, Call r2] @
           (if firstWins then [Fulfilled r1 (wrap v1), Fulfilled r2 (wrap v2)]
            else [Fulfilled r2 (wrap v2), Fulfilled r1 (wrap v1)]))
      | (Inl e1, Inr v2) \<Rightarrow>
          (Inl e1,
           [Call r1, Call r2] @
           (if firstWins then [Rejected r1 e1]
            else [Fulfilled r2 (wrap v2), Rejected r1 e1]))
      | (Inr v1, Inl e2) \<Rightarrow>
          (Inl e2,
           [Call r1, Call r2] @
           (if firstWins then [Fulfilled r1 (wrap v1), Rejected r2 e2]
            else [Rejected r2 e2]))
      | (Inl e1, Inl e2) \<Rightarrow>
          (if firstWins then (Inl e1, [Call r1, Call r2, Rejected r1 e1])
           else (Inl e2, [Call r1, Call r2, Rejected r2 e2])))"

section \<open>JavaScript library functions the script relies on\<close>

text \<open>\<open>Array.prototype.slice(start, end)\<close>: a negative index counts from the end of the
  array, and both indices are clamped to the array.\<close>

definition slice :: "'a list \<Rightarrow> int \<Rightarrow> int \<Rightarrow> 'a list" where
  "slice xs start end =
     (let len = int (length xs);
          k = (if start < 0 then max (len + start) 0 else min start len);
          fin = (if end < 0 then max (len + end) 0 else min end len)
      in take (nat (fin - k)) (drop (nat k) xs))"

text \<open>\<open>String.prototype.trim\<close>. A string is a list of 8-bit characters here; the
  white space and line terminators of JavaScript among them are the six of ASCII and the
  no-break space U+00A0.\<close>

definition isWhiteSpace :: "char \<Rightarrow> bool" where
  "isWhiteSpace c =
     (c \<in> set [CHR '' '', CHR 0x09, CHR 0x0A, CHR 0x0B, CHR 0x0C, CHR 0x0D, CHR 0xA0])"

definition trim :: "string \<Rightarrow> string" where
  "trim s = rev (dropWhile isWhiteSpace (rev (dropWhile isWhiteSpace s)))"

text \<open>\<open>xs.map(f)\<close> where \<open>f\<close> may throw: the first error ends the map.\<close>

primrec mapE :: "('a \<Rightarrow> error + 'b) \<Rightarrow> 'a list \<Rightarrow> error + 'b list" where
  "mapE f [] = Inr []"
| "mapE f (x # xs) =
     (case f x of
        Inl e \<Rightarrow> Inl e
      | Inr y \<Rightarrow> (case mapE f xs of Inl e \<Rightarrow> Inl e | Inr ys \<Rightarrow> Inr (y # ys)))"

text \<open>\<open>x || 0\<close> on a number.\<close>

definition orZero :: "int \<Rightarrow> int" where
  "orZero x = (if x = 0 then 0 else x)"

definition explorerLink :: "string \<Rightarrow> string" where
  "explorerLink txSignature =
     ''https://explorer.solana.com/tx/'' @ txSignature @ ''?cluster=devnet''"

text \<open>\<^verbatim>\<open>createTransferInstruction\<close> and \<^verbatim>\<open>createBurnInstruction\<close> serialise their
  arguments when they are called. The leaf index is written as an unsigned 32-bit
  integer, and a number outside that range throws a \<^verbatim>\<open>RangeError\<close>.\<close>

definition u32 :: "int \<Rightarrow> error + int" where
  "u32 n = (if 0 \<le> n \<and> n < 2 ^ 32 then Inr n else Inl (Error ''RangeError''))"

definition confirmed :: ConfirmOptions where
  "confirmed = \<lparr>commitment = ''confirmed'', skipPreflight = True\<rparr>"

section \<open>The four phases and \<open>main\<close>\<close>

text \<open>\<^verbatim>\<open>createTree\<close> (lines 76 to 156). The instruction allocating the tree account is
  requested before the \<^verbatim>\<open>try\<close> block; only the submission of the transaction is inside
  it.\<close>

definition createTree ::
  "env \<Rightarrow> Connection \<Rightarrow> Keypair \<Rightarrow> ValidDepthSizePair \<Rightarrow> int \<Rightarrow> PublicKey task" where
  "createTree env connection payer maxDepthSizePair canopyDepth =
     bindE (sync (generate env)) (\<lambda>treeKeypair.
     let (treeAuthority, bump) =
           findProgramAddressSync env [toBuffer (publicKey treeKeypair)]
             (BUBBLEGUM_PROGRAM_ID env)
     in
     bindE (await
              (CreateAllocTreeIx connection (publicKey treeKeypair) (publicKey payer)
                 maxDepthSizePair canopyDepth)
              RInstruction
              (\<lambda>h. createAllocTreeIx env h connection (publicKey treeKeypair)
                      (publicKey payer) maxDepthSizePair canopyDepth)) (\<lambda>allocTreeIx.
     let createTreeIx =
           CreateTreeInstruction
             \<lparr>treeAuthority_ct = treeAuthority,
              merkleTree_ct = publicKey treeKeypair,
              payer_ct = publicKey payer,
              treeCreator_ct = publicKey payer,
              logWrapper_ct = SPL_NOOP_PROGRAM_ID env,
              compressionProgram_ct = SPL_ACCOUNT_COMPRESSION_PROGRAM_ID env\<rparr>
             \<lparr>maxBufferSize_ct = maxBufferSize maxDepthSizePair,
              maxDepth_ct = maxDepth maxDepthSizePair,
              public_ct = False\<rparr>
             (BUBBLEGUM_PROGRAM_ID env)
     in
     tryCatch
       (let tx = (add new_Transaction [Raw allocTreeIx, createTreeIx])
                   \<lparr>feePayer := Some (publicKey payer)\<rparr>
        in
        bindE (await
                 (SendAndConfirmTransaction connection tx [treeKeypair, payer] confirmed)
                 RSignature
                 (\<lambda>h. sendAndConfirmTransaction env h connection tx [treeKeypair, payer]
                         confirmed)) (\<lambda>txSignature.
        bindE (emit (ConsoleLog [explorerLink txSignature])) (\<lambda>_.
        bindE (emit (ConsoleLog [''Tree Address:'', toBase58 env (publicKey treeKeypair)]))
          (\<lambda>_.
        returnE (publicKey treeKeypair)))))
       (\<lambda>err.
        bindE (emit (ConsoleError ''\<newline>Failed to create merkle tree:'' err)) (\<lambda>_.
        throwE err))))"

text \<open>\<^verbatim>\<open>mintCompressedNFT\<close> (lines 159 to 215).\<close>

definition mintCompressedNFT :: "env \<Rightarrow> Connection \<Rightarrow> Keypair \<Rightarrow> PublicKey \<Rightarrow> PublicKey task" where
  "mintCompressedNFT env connection payer treeAddress =
     (let compressedNFTMetadata = createCompressedNFTMetadata env (publicKey payer);
          treeAuthority =
            fst (findProgramAddressSync env [toBuffer treeAddress] (BUBBLEGUM_PROGRAM_ID env));
          mintIx =
            MintV1Instruction
              \<lparr>payer_mint = publicKey payer,
               merkleTree_mint = treeAddress,
               treeAuthority_mint = treeAuthority,
               treeDelegate_mint = publicKey payer,
               leafOwner_mint = publicKey payer,
               leafDelegate_mint = publicKey payer,
               compressionProgram_mint = SPL_ACCOUNT_COMPRESSION_PROGRAM_ID env,
               logWrapper_mint = SPL_NOOP_PROGRAM_ID env\<rparr>
              \<lparr>message_mint = compressedNFTMetadata\<rparr>
      in
      tryCatch
        (let tx = (add new_Transaction [mintIx])\<lparr>feePayer := Some (publicKey payer)\<rparr>
         in
         bindE (await
                  (SendAndConfirmTransaction connection tx [payer] confirmed)
                  RSignature
                  (\<lambda>h. sendAndConfirmTransaction env h connection tx [payer] confirmed))
           (\<lambda>txSignature.
         bindE (emit (ConsoleLog [explorerLink txSignature])) (\<lambda>_.
         bindE (await
                  (ExtractAssetId connection txSignature treeAddress)
                  RPublicKey
                  (\<lambda>h. extractAssetId env h connection txSignature treeAddress)) (\<lambda>assetId.
         returnE assetId))))
        (\<lambda>err.
         bindE (emit (ConsoleError ''\<newline>Failed to mint compressed NFT:'' err)) (\<lambda>_.
         throwE err)))"

text \<open>
  Four expressions that \<^verbatim>\<open>transferCompressedNFT\<close> and \<^verbatim>\<open>burnCompressedNFT\<close> both
  contain:
  \<^item> \<open>fetchBoth\<close>, lines 226 to 229 and 316 to 319:
    \<^verbatim>\<open>await Promise.all([heliusApi("getAsset", ...), heliusApi("getAssetProof", ...)])\<close>;
  \<^item> \<open>delegateKey\<close>, lines 238 to 240 and 328 to 330:
    \<^verbatim>\<open>ownership.delegate ? new PublicKey(ownership.delegate) : ownerPublicKey\<close>, which
    takes the owner when the delegate is absent or the empty string;
  \<^item> \<open>proofPathOf\<close>, lines 255 to 261 and 343 to 349: every node of the proof is made an
    account (the constructor throws at the first node that is not a key), then
    \<^verbatim>\<open>.slice(0, proof.length - canopyDepth)\<close>;
  \<^item> \<open>keyBytes\<close>: \<^verbatim>\<open>[...new PublicKey(s.trim()).toBytes()]\<close>.
\<close>

definition fetchBoth :: "env \<Rightarrow> PublicKey \<Rightarrow> (HeliusResult \<times> HeliusResult) task" where
  "fetchBoth env assetId h =
     awaitAll2 (settlesFirst env (h @
         [Call (HeliusApi ''getAsset'' (toBase58 env assetId)),
          Call (HeliusApi ''getAssetProof'' (toBase58 env assetId))]))
       (HeliusApi ''getAsset'' (toBase58 env assetId))
       (\<lambda>h. heliusApi env h ''getAsset'' (toBase58 env assetId))
       (HeliusApi ''getAssetProof'' (toBase58 env assetId))
       (\<lambda>h. heliusApi env h ''getAssetProof'' (toBase58 env assetId))
       RHelius h"

definition delegateKey :: "env \<Rightarrow> Ownership \<Rightarrow> PublicKey \<Rightarrow> error + PublicKey" where
  "delegateKey env ownership ownerPublicKey =
     (case delegate ownership of
        None \<Rightarrow> Inr ownerPublicKey
      | Some d \<Rightarrow> if d = [] then Inr ownerPublicKey else newPublicKey env d)"

definition proofPathOf :: "env \<Rightarrow> string list \<Rightarrow> int \<Rightarrow> error + AccountMeta list" where
  "proofPathOf env proof canopyDepth =
     (case mapE (\<lambda>node.
                   case newPublicKey env node of
                     Inl e \<Rightarrow> Inl e
                   | Inr k \<Rightarrow> Inr \<lparr>pubkey = k, isSigner = False, isWritable = False\<rparr>) proof of
        Inl e \<Rightarrow> Inl e
      | Inr metas \<Rightarrow> Inr (slice metas 0 (int (length proof) - canopyDepth)))"

definition keyBytes :: "env \<Rightarrow> string \<Rightarrow> error + bytes" where
  "keyBytes env s =
     (case newPublicKey env (trim s) of Inl e \<Rightarrow> Inl e | Inr k \<Rightarrow> Inr (toBuffer k))"

text \<open>\<^verbatim>\<open>transferCompressedNFT\<close> (lines 218 to 306). The whole body is inside the
  \<^verbatim>\<open>try\<close> block. An answer to \<^verbatim>\<open>getAsset\<close> without \<open>compression\<close> and \<open>ownership\<close>
  throws a \<^verbatim>\<open>TypeError\<close> where the tree key is read (line 236); an answer to
  \<^verbatim>\<open>getAssetProof\<close> without \<open>proof\<close> and \<open>root\<close> throws it only at \<^verbatim>\<open>proof.map\<close>
  (line 255), after the keys have been parsed and the tree account has been fetched.\<close>

definition transferCompressedNFT ::
  "env \<Rightarrow> Connection \<Rightarrow> PublicKey \<Rightarrow> Keypair \<Rightarrow> Keypair \<Rightarrow> unit task" where
  "transferCompressedNFT env connection assetId sender receiver =
     tryCatch
       (bindE (fetchBoth env assetId) (\<lambda>(assetData, assetProofData).
        case assetData of
          AssetData compression ownership \<Rightarrow>
            bindE (liftE (newPublicKey env (tree compression))) (\<lambda>treePublicKey.
            bindE (liftE (newPublicKey env (owner ownership))) (\<lambda>ownerPublicKey.
            bindE (liftE (delegateKey env ownership ownerPublicKey)) (\<lambda>delegatePublicKey.
            bindE (await (FromAccountAddress connection treePublicKey) RTreeAccount
                     (\<lambda>h. fromAccountAddress env h connection treePublicKey)) (\<lambda>treeAccount.
            let treeAuthority = getAuthority treeAccount;
                canopyDepth = orZero (getCanopyDepth treeAccount)
            in
            case assetProofData of
              AssetProofData proof root \<Rightarrow>
            bindE (liftE (proofPathOf env proof canopyDepth)) (\<lambda>proofPath.
            let newLeafOwner = publicKey receiver in
            bindE (liftE (keyBytes env root)) (\<lambda>rootBytes.
            bindE (liftE (keyBytes env (data_hash compression))) (\<lambda>dataHashBytes.
            bindE (liftE (keyBytes env (creator_hash compression))) (\<lambda>creatorHashBytes.
            bindE (liftE (u32 (leaf_id compression))) (\<lambda>_.
            let transferIx =
                  TransferInstruction
                    \<lparr>merkleTree_xfer = treePublicKey,
                     treeAuthority_xfer = treeAuthority,
                     leafOwner_xfer = ownerPublicKey,
                     leafDelegate_xfer = delegatePublicKey,
                     newLeafOwner_xfer = newLeafOwner,
                     logWrapper_xfer = SPL_NOOP_PROGRAM_ID env,
                     compressionProgram_xfer = SPL_ACCOUNT_COMPRESSION_PROGRAM_ID env,
                     anchorRemainingAccounts_xfer = proofPath\<rparr>
                    \<lparr>root_xfer = rootBytes,
                     dataHash_xfer = dataHashBytes,
                     creatorHash_xfer = creatorHashBytes,
                     nonce_xfer = leaf_id compression,
                     index_xfer = leaf_id compression\<rparr>
                    (BUBBLEGUM_PROGRAM_ID env);
                tx = (add new_Transaction [transferIx])\<lparr>feePayer := Some (publicKey sender)\<rparr>
            in
            bindE (await (SendAndConfirmTransaction connection tx [sender] confirmed)
                     RSignature
                     (\<lambda>h. sendAndConfirmTransaction env h connection tx [sender] confirmed))
              (\<lambda>txSignature.
            emit (ConsoleLog [explorerLink txSignature])))))))
            | _ \<Rightarrow> throwE (Error ''TypeError'')))))
        | _ \<Rightarrow> throwE (Error ''TypeError'')))
       (\<lambda>err.
        bindE (emit (ConsoleError ''\<newline>Failed to transfer nft:'' err)) (\<lambda>_.
        throwE err))"

text \<open>\<^verbatim>\<open>burnCompressedNFT\<close> (lines 309 to 390), with the same order of evaluation
  (lines 326, 333 and 343).\<close>

definition burnCompressedNFT :: "env \<Rightarrow> Connection \<Rightarrow> PublicKey \<Rightarrow> Keypair \<Rightarrow> unit task" where
  "burnCompressedNFT env connection assetId payer =
     tryCatch
       (bindE (fetchBoth env assetId) (\<lambda>(assetData, assetProofData).
        case assetData of
          AssetData compression ownership \<Rightarrow>
            bindE (liftE (newPublicKey env (tree compression))) (\<lambda>treePublicKey.
            bindE (liftE (newPublicKey env (owner ownership))) (\<lambda>ownerPublicKey.
            bindE (liftE (delegateKey env ownership ownerPublicKey)) (\<lambda>delegatePublicKey.
            bindE (await (FromAccountAddress connection treePublicKey) RTreeAccount
                     (\<lambda>h. fromAccountAddress env h connection treePublicKey)) (\<lambda>treeAccount.
            let treeAuthority = getAuthority treeAccount;
                canopyDepth = orZero (getCanopyDepth treeAccount)
            in
            case assetProofData of
              AssetProofData proof root \<Rightarrow>
            bindE (liftE (proofPathOf env proof canopyDepth)) (\<lambda>proofPath.
            bindE (liftE (keyBytes env root)) (\<lambda>rootBytes.
            bindE (liftE (keyBytes env (data_hash compression))) (\<lambda>dataHashBytes.
            bindE (liftE (keyBytes env (creator_hash compression))) (\<lambda>creatorHashBytes.
            bindE (liftE (u32 (leaf_id compression))) (\<lambda>_.
            let burnIx =
                  BurnInstruction
                    \<lparr>treeAuthority_burn = treeAuthority,
                     leafOwner_burn = ownerPublicKey,
                     leafDelegate_burn = delegatePublicKey,
                     merkleTree_burn = treePublicKey,
                     logWrapper_burn = SPL_NOOP_PROGRAM_ID env,
                     compressionProgram_burn = SPL_ACCOUNT_COMPRESSION_PROGRAM_ID env,
                     anchorRemainingAccounts_burn = proofPath\<rparr>
                    \<lparr>root_burn = rootBytes,
                     dataHash_burn = dataHashBytes,
                     creatorHash_burn = creatorHashBytes,
                     nonce_burn = leaf_id compression,
                     index_burn = leaf_id compression\<rparr>
                    (BUBBLEGUM_PROGRAM_ID env);
                tx = (add new_Transaction [burnIx])\<lparr>feePayer := Some (publicKey payer)\<rparr>
            in
            bindE (await (SendAndConfirmTransaction connection tx [payer] confirmed)
                     RSignature
                     (\<lambda>h. sendAndConfirmTransaction env h connection tx [payer] confirmed))
              (\<lambda>txSignature.
            emit (ConsoleLog [explorerLink txSignature])))))))
            | _ \<Rightarrow> throwE (Error ''TypeError'')))))
        | _ \<Rightarrow> throwE (Error ''TypeError'')))
       (\<lambda>err.
        bindE (emit (ConsoleError ''\<newline>Failed to burn NFT:'' err)) (\<lambda>_.
        throwE err))"

text \<open>\<^verbatim>\<open>main\<close> (lines 32 to 73). The call of \<^verbatim>\<open>airdropSolIfNeeded\<close> is not awaited.\<close>

definition main :: "env \<Rightarrow> unit task" where
  "main env =
     (let connection = new_Connection (clusterApiUrl env ''devnet'') ''confirmed''
      in
      bindE (await (GetOrCreateKeypair ''Wallet_1'') RKeypair
               (\<lambda>h. getOrCreateKeypair env h ''Wallet_1'')) (\<lambda>wallet.
      bindE (await (GetOrCreateKeypair ''Wallet_2'') RKeypair
               (\<lambda>h. getOrCreateKeypair env h ''Wallet_2'')) (\<lambda>wallet2.
      bindE (callNoAwait (AirdropSolIfNeeded (publicKey wallet))) (\<lambda>_.
      let maxDepthSizePair = \<lparr>maxDepth = 3, maxBufferSize = 8\<rparr>;
          canopyDepth = 0
      in
      bindE (createTree env connection wallet maxDepthSizePair canopyDepth) (\<lambda>treeAddress.
      bindE (mintCompressedNFT env connection wallet treeAddress) (\<lambda>assetId1.
      bindE (mintCompressedNFT env connection wallet treeAddress) (\<lambda>assetId2.
      bindE (transferCompressedNFT env connection assetId1 wallet wallet2) (\<lambda>_.
      burnCompressedNFT env connection assetId2 wallet))))))))"

section \<open>Observing a trace\<close>

text \<open>The transactions submitted, the indexing requests issued, and the kinds of
  Bubblegum instruction submitted, each in the order of the trace.\<close>

definition isSend :: "event \<Rightarrow> bool" where
  "isSend ev = (case ev of Call (SendAndConfirmTransaction c tx ks opts) \<Rightarrow> True | _ \<Rightarrow> False)"

definition sentTx :: "event \<Rightarrow> Transaction list" where
  "sentTx ev = (case ev of Call (SendAndConfirmTransaction c tx ks opts) \<Rightarrow> [tx] | _ \<Rightarrow> [])"

definition submitted :: "event list \<Rightarrow> Transaction list" where
  "submitted t = concat (map sentTx t)"

definition heliusCall :: "event \<Rightarrow> (string \<times> string) list" where
  "heliusCall ev = (case ev of Call (HeliusApi method ident) \<Rightarrow> [(method, ident)] | _ \<Rightarrow> [])"

definition heliusCalls :: "event list \<Rightarrow> (string \<times> string) list" where
  "heliusCalls t = concat (map heliusCall t)"

definition signatureOf :: "event \<Rightarrow> string list" where
  "signatureOf ev =
     (case ev of
        Fulfilled (SendAndConfirmTransaction c tx ks opts) (RSignature txSignature) \<Rightarrow>
          [txSignature]
      | _ \<Rightarrow> [])"

definition signatures :: "event list \<Rightarrow> string list" where
  "signatures t = concat (map signatureOf t)"

datatype phase = CreateTree | Mint | Transfer | Burn

definition ixPhase :: "instruction \<Rightarrow> phase list" where
  "ixPhase ix =
     (case ix of
        Raw ix \<Rightarrow> []
      | CreateTreeInstruction accounts args programId \<Rightarrow> [CreateTree]
      | MintV1Instruction accounts args \<Rightarrow> [Mint]
      | TransferInstruction accounts args programId \<Rightarrow> [Transfer]
      | BurnInstruction accounts args programId \<Rightarrow> [Burn])"

definition phasesOf :: "event list \<Rightarrow> phase list" where
  "phasesOf t = concat (map ixPhase (concat (map instructions (submitted t))))"

definition proofAccountsOf :: "instruction \<Rightarrow> AccountMeta list list" where
  "proofAccountsOf ix =
     (case ix of
        TransferInstruction accounts args programId \<Rightarrow>
          [anchorRemainingAccounts_xfer accounts]
      | BurnInstruction accounts args programId \<Rightarrow> [anchorRemainingAccounts_burn accounts]
      | _ \<Rightarrow> [])"

definition proofAccounts :: "event list \<Rightarrow> AccountMeta list list" where
  "proofAccounts t = concat (map proofAccountsOf (concat (map instructions (submitted t))))"

definition isAirdropCall :: "event \<Rightarrow> bool" where
  "isAirdropCall ev = (case ev of Call (AirdropSolIfNeeded k) \<Rightarrow> True | _ \<Rightarrow> False)"

text \<open>The words of the specification for an error of a remote call: the run of the phase
  writes a failure message with that error to the console and ends by throwing that
  error.\<close>

definition loggedAndRethrown :: "error \<Rightarrow> (error + 'a) \<times> event list \<Rightarrow> bool" where
  "loggedAndRethrown e run =
     (fst run = Inl e
      \<and> list_ex (\<lambda>ev. case ev of ConsoleError msg e' \<Rightarrow> e' = e | _ \<Rightarrow> False) (snd run))"

text \<open>
  The requests still in flight after a trace, and whether every call in a trace was
  allowed by a rule that sees the requests in flight at the moment of the call.
\<close>

primrec pending :: "request list \<Rightarrow> event list \<Rightarrow> request list" where
  "pending p [] = p"
| "pending p (ev # es) =
     (case ev of
        Call q \<Rightarrow> pending (p @ [q]) es
      | Fulfilled q v \<Rightarrow> pending (remove1 q p) es
      | Rejected q e \<Rightarrow> pending (remove1 q p) es
      | ConsoleLog ls \<Rightarrow> pending p es
      | ConsoleError msg e \<Rightarrow> pending p es)"

primrec obeys :: "(request list \<Rightarrow> request \<Rightarrow> bool) \<Rightarrow> request list \<Rightarrow> event list \<Rightarrow> bool" where
  "obeys allowed p [] = True"
| "obeys allowed p (ev # es) =
     (case ev of
        Call q \<Rightarrow> allowed p q \<and> obeys allowed (p @ [q]) es
      | Fulfilled q v \<Rightarrow> obeys allowed (remove1 q p) es
      | Rejected q e \<Rightarrow> obeys allowed (remove1 q p) es
      | ConsoleLog ls \<Rightarrow> obeys allowed p es
      | ConsoleError msg e \<Rightarrow> obeys allowed p es)"

text \<open>A trace without the calls of \<^verbatim>\<open>airdropSolIfNeeded\<close>, which \<open>main\<close> does not
  await.\<close>

definition awaitedPart :: "event list \<Rightarrow> event list" where
  "awaitedPart t = filter (\<lambda>ev. \<not> isAirdropCall ev) t"

text \<open>The rule of the specification: a request is issued only when none is in flight.\<close>

definition sequential :: "event list \<Rightarrow> bool" where
  "sequential t = obeys (\<lambda>p q. p = []) [] t"

text \<open>The rule the script follows for the calls it awaits: a request is issued when none
  is in flight, or it is the proof request for the asset whose \<^verbatim>\<open>getAsset\<close> request is
  the only one in flight.\<close>

definition fetchPair :: "request list \<Rightarrow> request \<Rightarrow> bool" where
  "fetchPair p q =
     (case p of
        [] \<Rightarrow> True
      | [HeliusApi method ident] \<Rightarrow>
          method = ''getAsset'' \<and> q = HeliusApi ''getAssetProof'' ident
      | _ \<Rightarrow> False)"

definition sequentialButFetches :: "event list \<Rightarrow> bool" where
  "sequentialButFetches t = obeys fetchPair [] t"

text \<open>The words of the specification for the proof accounts: the first
  (length of the proof minus the canopy depth) nodes.\<close>

definition firstNodes :: "'a list \<Rightarrow> int \<Rightarrow> 'a list" where
  "firstNodes nodes canopyDepth = take (nat (int (length nodes) - canopyDepth)) nodes"

section \<open>The shape of the trace of each phase\<close>

text \<open>\<open>holds m h Q\<close>: the outcome and the events of \<open>m\<close>, run after the trace \<open>h\<close>,
  satisfy \<open>Q\<close>.\<close>

definition holds :: "'a task \<Rightarrow> event list \<Rightarrow> ((error + 'a) \<Rightarrow> event list \<Rightarrow> bool) \<Rightarrow> bool" where
  "holds m h Q = Q (fst (m h)) (snd (m h))"

abbreviation devnet :: "env \<Rightarrow> Connection" where
  "devnet env \<equiv> new_Connection (clusterApiUrl env ''devnet'') ''confirmed''"

definition walletsLoaded :: "Keypair \<Rightarrow> Keypair \<Rightarrow> event list" where
  "walletsLoaded wallet wallet2 =
     [Call (GetOrCreateKeypair ''Wallet_1''),
      Fulfilled (GetOrCreateKeypair ''Wallet_1'') (RKeypair wallet),
      Call (GetOrCreateKeypair ''Wallet_2''),
      Fulfilled (GetOrCreateKeypair ''Wallet_2'') (RKeypair wallet2),
      Call (AirdropSolIfNeeded (publicKey wallet))]"

definition createTreeTx ::
  "env \<Rightarrow> Keypair \<Rightarrow> Keypair \<Rightarrow> ValidDepthSizePair \<Rightarrow> TransactionInstruction \<Rightarrow> Transaction"
  where
  "createTreeTx env treeKeypair payer pair allocTreeIx =
     \<lparr>instructions =
        [Raw allocTreeIx,
         CreateTreeInstruction
           \<lparr>treeAuthority_ct =
              fst (findProgramAddressSync env [toBuffer (publicKey treeKeypair)]
                     (BUBBLEGUM_PROGRAM_ID env)),
            merkleTree_ct = publicKey treeKeypair,
            payer_ct = publicKey payer,
            treeCreator_ct = publicKey payer,
            logWrapper_ct = SPL_NOOP_PROGRAM_ID env,
            compressionProgram_ct = SPL_ACCOUNT_COMPRESSION_PROGRAM_ID env\<rparr>
           \<lparr>maxBufferSize_ct = maxBufferSize pair,
            maxDepth_ct = maxDepth pair,
            public_ct = False\<rparr>
           (BUBBLEGUM_PROGRAM_ID env)],
      feePayer = Some (publicKey payer)\<rparr>"

definition createTreeShape ::
  "env \<Rightarrow> Connection \<Rightarrow> Keypair \<Rightarrow> ValidDepthSizePair \<Rightarrow> int \<Rightarrow> event list
    \<Rightarrow> error + PublicKey \<Rightarrow> event list \<Rightarrow> bool" where
  "createTreeShape env c payer pair cd h r t =
     (let kp = generate env h;
          q = CreateAllocTreeIx c (publicKey kp) (publicKey payer) pair cd;
          msg = ''\<newline>Failed to create merkle tree:''
      in
        (\<exists>e. r = Inl e \<and> t = [Call q, Rejected q e])
      \<or> (\<exists>e ix. r = Inl e \<and>
            t = [Call q, Fulfilled q (RInstruction ix),
                 Call (SendAndConfirmTransaction c (createTreeTx env kp payer pair ix)
                         [kp, payer] confirmed),
                 Rejected (SendAndConfirmTransaction c (createTreeTx env kp payer pair ix)
                         [kp, payer] confirmed) e,
                 ConsoleError msg e])
      \<or> (\<exists>txSignature ix. r = Inr (publicKey kp) \<and>
            t = [Call q, Fulfilled q (RInstruction ix),
                 Call (SendAndConfirmTransaction c (createTreeTx env kp payer pair ix)
                         [kp, payer] confirmed),
                 Fulfilled (SendAndConfirmTransaction c (createTreeTx env kp payer pair ix)
                         [kp, payer] confirmed) (RSignature txSignature),
                 ConsoleLog [explorerLink txSignature],
                 ConsoleLog [''Tree Address:'', toBase58 env (publicKey kp)]]))"

definition mintTx :: "env \<Rightarrow> Keypair \<Rightarrow> PublicKey \<Rightarrow> Transaction" where
  "mintTx env payer treeAddress =
     \<lparr>instructions =
        [MintV1Instruction
           \<lparr>payer_mint = publicKey payer,
            merkleTree_mint = treeAddress,
            treeAuthority_mint =
              fst (findProgramAddressSync env [toBuffer treeAddress] (BUBBLEGUM_PROGRAM_ID env)),
            treeDelegate_mint = publicKey payer,
            leafOwner_mint = publicKey payer,
            leafDelegate_mint = publicKey payer,
            compressionProgram_mint = SPL_ACCOUNT_COMPRESSION_PROGRAM_ID env,
            logWrapper_mint = SPL_NOOP_PROGRAM_ID env\<rparr>
           \<lparr>message_mint = createCompressedNFTMetadata env (publicKey payer)\<rparr>],
      feePayer = Some (publicKey payer)\<rparr>"

definition mintShape ::
  "env \<Rightarrow> Connection \<Rightarrow> Keypair \<Rightarrow> PublicKey \<Rightarrow> error + PublicKey \<Rightarrow> event list \<Rightarrow> bool" where
  "mintShape env c payer treeAddress r t =
     (let s = SendAndConfirmTransaction c (mintTx env payer treeAddress) [payer] confirmed;
          msg = ''\<newline>Failed to mint compressed NFT:''
      in
        (\<exists>e. r = Inl e \<and> t = [Call s, Rejected s e, ConsoleError msg e])
      \<or> (\<exists>e txSignature. r = Inl e \<and>
            t = [Call s, Fulfilled s (RSignature txSignature),
                 ConsoleLog [explorerLink txSignature],
                 Call (ExtractAssetId c txSignature treeAddress),
                 Rejected (ExtractAssetId c txSignature treeAddress) e,
                 ConsoleError msg e])
      \<or> (\<exists>assetId txSignature. r = Inr assetId \<and>
            t = [Call s, Fulfilled s (RSignature txSignature),
                 ConsoleLog [explorerLink txSignature],
                 Call (ExtractAssetId c txSignature treeAddress),
                 Fulfilled (ExtractAssetId c txSignature treeAddress) (RPublicKey assetId)]))"

text \<open>The two indexing answers, in the order in which they arrived.\<close>

definition fetched :: "bool \<Rightarrow> request \<Rightarrow> HeliusResult \<Rightarrow> request \<Rightarrow> HeliusResult \<Rightarrow> event list" where
  "fetched first ra x rp y =
     (if first then [Fulfilled ra (RHelius x), Fulfilled rp (RHelius y)]
      else [Fulfilled rp (RHelius y), Fulfilled ra (RHelius x)])"

text \<open>
  The traces of \<^verbatim>\<open>transferCompressedNFT\<close> and \<^verbatim>\<open>burnCompressedNFT\<close>, which differ in the
  failure message and in the transaction only (\<open>txOK\<close>): an indexing request is
  rejected; the asset record has the wrong shape or a key of it cannot be parsed; the
  tree account cannot be fetched; after it has been fetched the proof record has the
  wrong shape, a node, the root or a hash cannot be parsed, or the leaf index cannot be
  serialised; the transaction is rejected; or the phase succeeds.
\<close>

definition assetPhaseShape ::
  "env \<Rightarrow> Connection \<Rightarrow> PublicKey \<Rightarrow> Keypair \<Rightarrow> string
    \<Rightarrow> (Compression \<Rightarrow> Ownership \<Rightarrow> string list \<Rightarrow> string \<Rightarrow> PublicKey
          \<Rightarrow> ConcurrentMerkleTreeAccount \<Rightarrow> Transaction \<Rightarrow> bool)
    \<Rightarrow> event list \<Rightarrow> error + unit \<Rightarrow> event list \<Rightarrow> bool" where
  "assetPhaseShape env c a signer msg txOK h r t =
    (let ra = HeliusApi ''getAsset'' (toBase58 env a);
         rp = HeliusApi ''getAssetProof'' (toBase58 env a);
         first = settlesFirst env (h @ [Call ra, Call rp])
     in
       (\<exists>e. r = Inl e \<and> t = [Call ra, Call rp, Rejected ra e, ConsoleError msg e])
     \<or> (\<exists>e. r = Inl e \<and> t = [Call ra, Call rp, Rejected rp e, ConsoleError msg e])
     \<or> (\<exists>e y. r = Inl e \<and>
           t = [Call ra, Call rp, Fulfilled rp (RHelius y), Rejected ra e, ConsoleError msg e])
     \<or> (\<exists>e x. r = Inl e \<and>
           t = [Call ra, Call rp, Fulfilled ra (RHelius x), Rejected rp e, ConsoleError msg e])
     \<or> (\<exists>e x y. r = Inl e \<and>
           t = [Call ra, Call rp] @ fetched first ra x rp y @ [ConsoleError msg e])
     \<or> (\<exists>e x y k. r = Inl e \<and>
           t = [Call ra, Call rp] @ fetched first ra x rp y @
               [Call (FromAccountAddress c k), Rejected (FromAccountAddress c k) e,
                ConsoleError msg e])
     \<or> (\<exists>e x y k ta. r = Inl e \<and>
           t = [Call ra, Call rp] @ fetched first ra x rp y @
               [Call (FromAccountAddress c k),
                Fulfilled (FromAccountAddress c k) (RTreeAccount ta),
                ConsoleError msg e])
     \<or> (\<exists>e cmpr own prf root k ta tx. r = Inl e \<and>
           txOK cmpr own prf root k ta tx \<and>
           t = [Call ra, Call rp] @
               fetched first ra (AssetData cmpr own) rp (AssetProofData prf root) @
               [Call (FromAccountAddress c k),
                Fulfilled (FromAccountAddress c k) (RTreeAccount ta),
                Call (SendAndConfirmTransaction c tx [signer] confirmed),
                Rejected (SendAndConfirmTransaction c tx [signer] confirmed) e,
                ConsoleError msg e])
     \<or> (\<exists>txSignature cmpr own prf root k ta tx. r = Inr () \<and>
           txOK cmpr own prf root k ta tx \<and>
           t = [Call ra, Call rp] @
               fetched first ra (AssetData cmpr own) rp (AssetProofData prf root) @
               [Call (FromAccountAddress c k),
                Fulfilled (FromAccountAddress c k) (RTreeAccount ta),
                Call (SendAndConfirmTransaction c tx [signer] confirmed),
                Fulfilled (SendAndConfirmTransaction c tx [signer] confirmed)
                  (RSignature txSignature),
                ConsoleLog [explorerLink txSignature]]))"

definition transferTxOK ::
  "env \<Rightarrow> Keypair \<Rightarrow> Keypair \<Rightarrow> Compression \<Rightarrow> Ownership \<Rightarrow> string list \<Rightarrow> string \<Rightarrow> PublicKey
    \<Rightarrow> ConcurrentMerkleTreeAccount \<Rightarrow> Transaction \<Rightarrow> bool" where
  "transferTxOK env sender receiver cmpr own prf root k ta tx =
    (\<exists>ok dk pp rb db cb.
       newPublicKey env (tree cmpr) = Inr k \<and>
       newPublicKey env (owner own) = Inr ok \<and>
       delegateKey env own ok = Inr dk \<and>
       proofPathOf env prf (orZero (getCanopyDepth ta)) = Inr pp \<and>
       keyBytes env root = Inr rb \<and>
       keyBytes env (data_hash cmpr) = Inr db \<and>
       keyBytes env (creator_hash cmpr) = Inr cb \<and>
       tx = \<lparr>instructions =
               [TransferInstruction
                  \<lparr>merkleTree_xfer = k,
                   treeAuthority_xfer = getAuthority ta,
                   leafOwner_xfer = ok,
                   leafDelegate_xfer = dk,
                   newLeafOwner_xfer = publicKey receiver,
                   logWrapper_xfer = SPL_NOOP_PROGRAM_ID env,
                   compressionProgram_xfer = SPL_ACCOUNT_COMPRESSION_PROGRAM_ID env,
                   anchorRemainingAccounts_xfer = pp\<rparr>
                  \<lparr>root_xfer = rb,
                   dataHash_xfer = db,
                   creatorHash_xfer = cb,
                   nonce_xfer = leaf_id cmpr,
                   index_xfer = leaf_id cmpr\<rparr>
                  (BUBBLEGUM_PROGRAM_ID env)],
             feePayer = Some (publicKey sender)\<rparr>)"

definition burnTxOK ::
  "env \<Rightarrow> Keypair \<Rightarrow> Compression \<Rightarrow> Ownership \<Rightarrow> string list \<Rightarrow> string \<Rightarrow> PublicKey
    \<Rightarrow> ConcurrentMerkleTreeAccount \<Rightarrow> Transaction \<Rightarrow> bool" where
  "burnTxOK env payer cmpr own prf root k ta tx =
    (\<exists>ok dk pp rb db cb.
       newPublicKey env (tree cmpr) = Inr k \<and>
       newPublicKey env (owner own) = Inr ok \<and>
       delegateKey env own ok = Inr dk \<and>
       proofPathOf env prf (orZero (getCanopyDepth ta)) = Inr pp \<and>
       keyBytes env root = Inr rb \<and>
       keyBytes env (data_hash cmpr) = Inr db \<and>
       keyBytes env (creator_hash cmpr) = Inr cb \<and>
       tx = \<lparr>instructions =
               [BurnInstruction
                  \<lparr>treeAuthority_burn = getAuthority ta,
                   leafOwner_burn = ok,
                   leafDelegate_burn = dk,
                   merkleTree_burn = k,
                   logWrapper_burn = SPL_NOOP_PROGRAM_ID env,
                   compressionProgram_burn = SPL_ACCOUNT_COMPRESSION_PROGRAM_ID env,
                   anchorRemainingAccounts_burn = pp\<rparr>
                  \<lparr>root_burn = rb,
                   dataHash_burn = db,
                   creatorHash_burn = cb,
                   nonce_burn = leaf_id cmpr,
                   index_burn = leaf_id cmpr\<rparr>
                  (BUBBLEGUM_PROGRAM_ID env)],
             feePayer = Some (publicKey payer)\<rparr>)"

text \<open>Every transaction of a run of \<open>main\<close> is the one of a phase: of the creation of
  the tree with the fixed parameters, of a mint into the address that creation returned,
  of a transfer, or of a burn.\<close>

definition ofCreateTree :: "env \<Rightarrow> Transaction \<Rightarrow> bool" where
  "ofCreateTree env tx =
     (\<exists>w hc ix. tx = createTreeTx env (generate env hc) w
                        \<lparr>maxDepth = 3, maxBufferSize = 8\<rparr> ix)"

definition ofMint :: "env \<Rightarrow> event list \<Rightarrow> event list \<Rightarrow> Transaction \<Rightarrow> bool" where
  "ofMint env h t tx =
     (\<exists>w pre treeAddress t1 post.
        createTree env (devnet env) w \<lparr>maxDepth = 3, maxBufferSize = 8\<rparr> 0 (h @ pre) =
          (Inr treeAddress, t1)
        \<and> t = pre @ t1 @ post \<and> tx = mintTx env w treeAddress)"

definition ofTransfer :: "Transaction \<Rightarrow> bool" where
  "ofTransfer tx =
     (\<exists>accounts args programId.
        instructions tx = [TransferInstruction accounts args programId])"

definition ofBurn :: "Transaction \<Rightarrow> bool" where
  "ofBurn tx =
     (\<exists>accounts args programId. instructions tx = [BurnInstruction accounts args programId])"

section \<open>A concrete environment\<close>

text \<open>
  A small world on which the script can be run: every request succeeds, the two wallets
  are the keys \<open>[11]\<close> and \<open>[12]\<close>, the generated tree keypair is \<open>[7]\<close>, the
  \<open>n\<close>-th transaction gets the signature \<open>sig\<close> followed by \<open>n\<close> plus signs, the asset
  minted by the second transaction of a run is \<open>[21]\<close> and any other is \<open>[22]\<close>, and the indexing service answers with a proof of three nodes. Base58
  strings are given by a table.
\<close>

definition base58Table :: "(string \<times> PublicKey) list" where
  "base58Table =
     [(''T'', PublicKey [7]), (''W1'', PublicKey [11]), (''W2'', PublicKey [12]),
      (''A1'', PublicKey [21]), (''A2'', PublicKey [22]),
      (''D'', PublicKey [31]), (''C'', PublicKey [32]), (''R'', PublicKey [33]),
      (''P1'', PublicKey [41]), (''P2'', PublicKey [42]), (''P3'', PublicKey [43])]"

definition wallet1 :: Keypair where
  "wallet1 = \<lparr>publicKey = PublicKey [11], secretKey = [11]\<rparr>"

definition wallet2 :: Keypair where
  "wallet2 = \<lparr>publicKey = PublicKey [12], secretKey = [12]\<rparr>"

definition env0 :: env where
  "env0 =
     \<lparr>BUBBLEGUM_PROGRAM_ID = PublicKey [1],
      SPL_NOOP_PROGRAM_ID = PublicKey [2],
      SPL_ACCOUNT_COMPRESSION_PROGRAM_ID = PublicKey [3],
      clusterApiUrl = (\<lambda>c. ''https://api.'' @ c @ ''.solana.com''),
      toBase58 = (\<lambda>k. case map_of (map (\<lambda>(s, k). (k, s)) base58Table) k of
                          Some s \<Rightarrow> s | None \<Rightarrow> ''?''),
      newPublicKey = (\<lambda>s. case map_of base58Table s of
                          Some k \<Rightarrow> Inr k | None \<Rightarrow> Inl (Error ''Invalid public key input'')),
      findProgramAddressSync = (\<lambda>seeds programId. (PublicKey (concat seeds @ toBuffer programId), 255)),
      createCompressedNFTMetadata = (\<lambda>creator. MetadataArgs ''CNFT''),
      generate = (\<lambda>h. \<lparr>publicKey = PublicKey [7], secretKey = [7]\<rparr>),
      getOrCreateKeypair = (\<lambda>h walletName.
         Inr (if walletName = ''Wallet_1'' then wallet1 else wallet2)),
      createAllocTreeIx = (\<lambda>h connection merkleTree payer pair canopyDepth.
         Inr (TransactionInstruction (PublicKey [0]) [] [])),
      sendAndConfirmTransaction = (\<lambda>h connection tx signers opts.
         Inr (''sig'' @ replicate (length (filter isSend h)) CHR ''+'')),
      extractAssetId = (\<lambda>h connection txSignature treeAddress.
         Inr (if length (filter isSend h) = 2 then PublicKey [21] else PublicKey [22])),
      heliusApi = (\<lambda>h method ident.
         if method = ''getAsset''
         then Inr (AssetData
                \<lparr>tree = ''T'', data_hash = ''D'', creator_hash = ''C'',
                 leaf_id = (if ident = ''A1'' then 0 else 1)\<rparr>
                \<lparr>owner = ''W1'', delegate = None\<rparr>)
         else Inr (AssetProofData [''P1'', ''P2'', ''P3''] '' R '')),
      fromAccountAddress = (\<lambda>h connection address.
         Inr \<lparr>getAuthority = PublicKey [8], getCanopyDepth = 0\<rparr>),
      settlesFirst = (\<lambda>h. True)\<rparr>"


text \<open>Variations of it: the request for the allocation instruction is rejected; every
  transaction is rejected; the tree account cannot be fetched; both requests to the
  indexing service are rejected, each with an error of its own; the tree has a canopy of
  depth one, and of depth four.\<close>

definition envAllocRejected :: env where
  "envAllocRejected =
     env0\<lparr>createAllocTreeIx :=
            (\<lambda>h connection merkleTree payer pair canopyDepth. Inl (Error ''rpc unreachable''))\<rparr>"

definition envSendRejected :: env where
  "envSendRejected =
     env0\<lparr>sendAndConfirmTransaction :=
            (\<lambda>h connection tx signers opts. Inl (Error ''blockhash not found''))\<rparr>"

definition envNoTreeAccount :: env where
  "envNoTreeAccount =
     env0\<lparr>fromAccountAddress :=
            (\<lambda>h connection address. Inl (Error ''account not found''))\<rparr>"

definition envFetchesRejected :: env where
  "envFetchesRejected =
     env0\<lparr>heliusApi :=
            (\<lambda>h method ident.
               if method = ''getAsset'' then Inl (Error ''asset unavailable'')
               else Inl (Error ''proof unavailable''))\<rparr>"

definition envCanopy1 :: env where
  "envCanopy1 =
     env0\<lparr>fromAccountAddress :=
            (\<lambda>h connection address.
               Inr \<lparr>getAuthority = PublicKey [8], getCanopyDepth = 1\<rparr>)\<rparr>"


section \<open>Rules for running a task\<close>

lemma holds_bindE:
  "holds (bindE m f) h Q =
     holds m h (\<lambda>r t. case r of
                        Inl e \<Rightarrow> Q (Inl e) t
                      | Inr x \<Rightarrow> holds (f x) (h @ t) (\<lambda>r' t'. Q r' (t @ t')))"
  by (simp add: holds_def bindE_def split: prod.splits sum.splits)

lemma holds_tryCatch:
  "holds (tryCatch m handler) h Q =
     holds m h (\<lambda>r t. case r of
                        Inl e \<Rightarrow> holds (handler e) (h @ t) (\<lambda>r' t'. Q r' (t @ t'))
                      | Inr x \<Rightarrow> Q (Inr x) t)"
  by (simp add: holds_def tryCatch_def split: prod.splits sum.splits)

lemma holds_await:
  "holds (await q w orc) h Q =
     (case orc (h @ [Call q]) of
        Inl e \<Rightarrow> Q (Inl e) [Call q, Rejected q e]
      | Inr v \<Rightarrow> Q (Inr v) [Call q, Fulfilled q (w v)])"
  by (simp add: holds_def await_def split: sum.splits)

lemma holds_liftE: "holds (liftE x) h Q = Q x []"
  by (simp add: holds_def liftE_def)

lemma holds_emit: "holds (emit ev) h Q = Q (Inr ()) [ev]"
  by (simp add: holds_def emit_def)

lemma holds_sync: "holds (sync g) h Q = Q (Inr (g h)) []"
  by (simp add: holds_def sync_def)

lemma holds_returnE: "holds (returnE y) h Q = Q (Inr y) []"
  by (simp add: holds_def returnE_def)

lemma holds_throwE: "holds (throwE e) h Q = Q (Inl e) []"
  by (simp add: holds_def throwE_def)

lemma holds_awaitAll2:
  "holds (awaitAll2 fw r1 o1 r2 o2 w) h Q =
     (case o1 (h @ [Call r1, Call r2]) of
        Inl e1 \<Rightarrow>
          (case o2 (h @ [Call r1, Call r2]) of
             Inl e2 \<Rightarrow>
               if fw then Q (Inl e1) [Call r1, Call r2, Rejected r1 e1]
               else Q (Inl e2) [Call r1, Call r2, Rejected r2 e2]
           | Inr v2 \<Rightarrow>
               if fw then Q (Inl e1) [Call r1, Call r2, Rejected r1 e1]
               else Q (Inl e1) [Call r1, Call r2, Fulfilled r2 (w v2), Rejected r1 e1])
      | Inr v1 \<Rightarrow>
          (case o2 (h @ [Call r1, Call r2]) of
             Inl e2 \<Rightarrow>
               if fw then Q (Inl e2) [Call r1, Call r2, Fulfilled r1 (w v1), Rejected r2 e2]
               else Q (Inl e2) [Call r1, Call r2, Rejected r2 e2]
           | Inr v2 \<Rightarrow>
               if fw
               then Q (Inr (v1, v2))
                      [Call r1, Call r2, Fulfilled r1 (w v1), Fulfilled r2 (w v2)]
               else Q (Inr (v1, v2))
                      [Call r1, Call r2, Fulfilled r2 (w v2), Fulfilled r1 (w v1)]))"
  by (simp add: holds_def awaitAll2_def Let_def split: sum.splits)

lemma holds_fetchBoth:
  "holds (fetchBoth env a) h Q =
     holds (awaitAll2
              (settlesFirst env (h @
                 [Call (HeliusApi ''getAsset'' (toBase58 env a)),
                  Call (HeliusApi ''getAssetProof'' (toBase58 env a))]))
              (HeliusApi ''getAsset'' (toBase58 env a))
              (\<lambda>h. heliusApi env h ''getAsset'' (toBase58 env a))
              (HeliusApi ''getAssetProof'' (toBase58 env a))
              (\<lambda>h. heliusApi env h ''getAssetProof'' (toBase58 env a))
              RHelius) h Q"
  by (simp add: holds_def fetchBoth_def)

lemmas holds_rules =
  holds_bindE holds_tryCatch holds_await holds_liftE holds_emit holds_sync holds_returnE
  holds_throwE holds_awaitAll2 holds_fetchBoth

lemma holdsD: "holds m h Q \<Longrightarrow> m h = (r, t) \<Longrightarrow> Q r t"
  by (simp add: holds_def)

section \<open>The shapes are the traces of the phases\<close>

lemma createTree_shape:
  "holds (createTree env c payer pair cd) h (createTreeShape env c payer pair cd h)"
  by (simp add: createTree_def holds_rules Let_def createTreeShape_def createTreeTx_def
        new_Transaction_def add_def split: sum.splits prod.splits)

lemma mint_shape:
  "holds (mintCompressedNFT env c payer treeAddress) h (mintShape env c payer treeAddress)"
  by (simp add: mintCompressedNFT_def holds_rules Let_def mintShape_def mintTx_def
        new_Transaction_def add_def split: sum.splits)

lemma transfer_shape:
  "holds (transferCompressedNFT env c a sender receiver) h
     (assetPhaseShape env c a sender ''\<newline>Failed to transfer nft:''
        (transferTxOK env sender receiver) h)"
  by (simp add: transferCompressedNFT_def holds_rules Let_def assetPhaseShape_def fetched_def
        transferTxOK_def new_Transaction_def add_def
      split: sum.splits HeliusResult.splits)

lemma burn_shape:
  "holds (burnCompressedNFT env c a payer) h
     (assetPhaseShape env c a payer ''\<newline>Failed to burn NFT:'' (burnTxOK env payer) h)"
  by (simp add: burnCompressedNFT_def holds_rules Let_def assetPhaseShape_def fetched_def
        burnTxOK_def new_Transaction_def add_def
      split: sum.splits HeliusResult.splits)

section \<open>Facts read off the shapes\<close>

lemma createTree_trace:
  "createTreeShape env c payer pair cd h
     (fst (createTree env c payer pair cd h)) (snd (createTree env c payer pair cd h))"
  using createTree_shape [of env c payer pair cd h] by (simp add: holds_def)

lemma mint_trace:
  "mintShape env c payer treeAddress
     (fst (mintCompressedNFT env c payer treeAddress h))
     (snd (mintCompressedNFT env c payer treeAddress h))"
  using mint_shape [of env c payer treeAddress h] by (simp add: holds_def)

lemma transfer_trace:
  "assetPhaseShape env c a sender ''\<newline>Failed to transfer nft:''
     (transferTxOK env sender receiver) h
     (fst (transferCompressedNFT env c a sender receiver h))
     (snd (transferCompressedNFT env c a sender receiver h))"
  using transfer_shape [of env c a sender receiver h] by (simp add: holds_def)

lemma burn_trace:
  "assetPhaseShape env c a payer ''\<newline>Failed to burn NFT:'' (burnTxOK env payer) h
     (fst (burnCompressedNFT env c a payer h)) (snd (burnCompressedNFT env c a payer h))"
  using burn_shape [of env c a payer h] by (simp add: holds_def)

lemma shape_fetches:
  assumes "assetPhaseShape env c a signer msg txOK h r t"
  shows "take 2 t =
           [Call (HeliusApi ''getAsset'' (toBase58 env a)),
            Call (HeliusApi ''getAssetProof'' (toBase58 env a))]"
    and "heliusCalls t =
           [(''getAsset'', toBase58 env a), (''getAssetProof'', toBase58 env a)]"
  using assms
  by (auto simp: assetPhaseShape_def Let_def fetched_def heliusCalls_def heliusCall_def)

lemma shape_link:
  assumes "assetPhaseShape env c a signer msg txOK h r t"
    and "Fulfilled (SendAndConfirmTransaction c' tx ks opts) (RSignature txSignature) \<in> set t"
  shows "ConsoleLog [explorerLink txSignature] \<in> set t"
  using assms by (auto simp: assetPhaseShape_def Let_def fetched_def split: if_splits)

lemma shape_rejected:
  assumes "assetPhaseShape env c a signer msg txOK h r t"
    and "Rejected q e \<in> set t"
  shows "r = Inl e \<and> (\<exists>pre. t = pre @ [Rejected q e, ConsoleError msg e])"
  using assms by (auto simp: assetPhaseShape_def Let_def fetched_def split: if_splits)

lemma createTree_link:
  assumes "createTreeShape env c payer pair cd h r t"
    and "Fulfilled (SendAndConfirmTransaction c' tx ks opts) (RSignature txSignature) \<in> set t"
  shows "ConsoleLog [explorerLink txSignature] \<in> set t
         \<and> r = Inr (publicKey (generate env h))
         \<and> ConsoleLog [''Tree Address:'', toBase58 env (publicKey (generate env h))] \<in> set t"
  using assms by (auto simp: createTreeShape_def Let_def)

lemma mint_link:
  assumes "mintShape env c payer treeAddress r t"
    and "Fulfilled (SendAndConfirmTransaction c' tx ks opts) (RSignature txSignature) \<in> set t"
  shows "ConsoleLog [explorerLink txSignature] \<in> set t"
  using assms by (auto simp: mintShape_def Let_def)

lemma createTree_rejected:
  assumes "createTreeShape env c payer pair cd h r t"
    and "Rejected q e \<in> set t"
  shows "r = Inl e \<and>
         (t = [Call q, Rejected q e] \<and>
            q = CreateAllocTreeIx c (publicKey (generate env h)) (publicKey payer) pair cd
          \<or> (\<exists>pre. t = pre @ [Rejected q e,
                                ConsoleError ''\<newline>Failed to create merkle tree:'' e]))"
  using assms by (auto simp: createTreeShape_def Let_def)

lemma mint_rejected:
  assumes "mintShape env c payer treeAddress r t"
    and "Rejected q e \<in> set t"
  shows "r = Inl e \<and>
         (\<exists>pre. t = pre @ [Rejected q e, ConsoleError ''\<newline>Failed to mint compressed NFT:'' e])"
  using assms by (auto simp: mintShape_def Let_def)

lemma in_signatures:
  "txSignature \<in> set (signatures t) \<longleftrightarrow>
     (\<exists>c tx ks opts.
        Fulfilled (SendAndConfirmTransaction c tx ks opts) (RSignature txSignature) \<in> set t)"
  by (induction t)
     (auto simp: signatures_def signatureOf_def split: event.splits request.splits response.splits)


section \<open>Running the phases in the concrete environment\<close>

lemma env0_sel:
  "BUBBLEGUM_PROGRAM_ID env0 = PublicKey [1]"
  "SPL_NOOP_PROGRAM_ID env0 = PublicKey [2]"
  "SPL_ACCOUNT_COMPRESSION_PROGRAM_ID env0 = PublicKey [3]"
  "clusterApiUrl env0 cl = ''https://api.'' @ cl @ ''.solana.com''"
  "toBase58 env0 k =
     (case map_of (map (\<lambda>(s, k). (k, s)) base58Table) k of Some s \<Rightarrow> s | None \<Rightarrow> ''?'')"
  "newPublicKey env0 s =
     (case map_of base58Table s of
        Some k \<Rightarrow> Inr k
      | None \<Rightarrow> Inl (Error ''Invalid public key input''))"
  "findProgramAddressSync env0 seeds programId =
     (PublicKey (concat seeds @ toBuffer programId), 255)"
  "createCompressedNFTMetadata env0 creator = MetadataArgs ''CNFT''"
  "generate env0 h = \<lparr>publicKey = PublicKey [7], secretKey = [7]\<rparr>"
  "getOrCreateKeypair env0 h walletName =
     Inr (if walletName = ''Wallet_1'' then wallet1 else wallet2)"
  "createAllocTreeIx env0 h c merkleTree payer pair canopyDepth =
     Inr (TransactionInstruction (PublicKey [0]) [] [])"
  "sendAndConfirmTransaction env0 h c tx signers opts =
     Inr (''sig'' @ replicate (length (filter isSend h)) CHR ''+'')"
  "extractAssetId env0 h c txSignature treeAddress =
     Inr (if length (filter isSend h) = 2 then PublicKey [21] else PublicKey [22])"
  "heliusApi env0 h method ident =
     (if method = ''getAsset''
      then Inr (AssetData
             \<lparr>tree = ''T'', data_hash = ''D'', creator_hash = ''C'',
              leaf_id = (if ident = ''A1'' then 0 else 1)\<rparr>
             \<lparr>owner = ''W1'', delegate = None\<rparr>)
      else Inr (AssetProofData [''P1'', ''P2'', ''P3''] '' R ''))"
  "fromAccountAddress env0 h c address =
     Inr \<lparr>getAuthority = PublicKey [8], getCanopyDepth = 0\<rparr>"
  "settlesFirst env0 h = True"
  by (simp_all add: env0_def)

lemmas run_defs =
  main_def createTree_def mintCompressedNFT_def transferCompressedNFT_def
  burnCompressedNFT_def fetchBoth_def delegateKey_def proofPathOf_def keyBytes_def
  slice_def u32_def trim_def isWhiteSpace_def orZero_def base58Table_def
  bindE_def tryCatch_def await_def awaitAll2_def returnE_def throwE_def liftE_def sync_def
  emit_def callNoAwait_def new_Transaction_def add_def new_Connection_def confirmed_def
  explorerLink_def isSend_def wallet1_def wallet2_def Let_def

lemmas observer_defs =
  submitted_def sentTx_def heliusCalls_def heliusCall_def phasesOf_def ixPhase_def
  signatures_def signatureOf_def isAirdropCall_def
  proofAccounts_def proofAccountsOf_def

section \<open>The claims about single phases\<close>

text \<open>
  C5. Every invocation of \<^verbatim>\<open>transferCompressedNFT\<close> and of \<^verbatim>\<open>burnCompressedNFT\<close>,
  whatever its outcome, begins by issuing the request \<^verbatim>\<open>getAsset\<close> and then the request
  \<^verbatim>\<open>getAssetProof\<close>, each with the base58 encoding of the asset id, and issues no other
  request to the indexing API; so each of the two is issued exactly once, and before any
  transaction (which carries the instruction) is submitted.
\<close>

theorem asset_phases_fetch_once:
  "take 2 (snd (transferCompressedNFT env c a sender receiver h)) =
     [Call (HeliusApi ''getAsset'' (toBase58 env a)),
      Call (HeliusApi ''getAssetProof'' (toBase58 env a))]
   \<and> heliusCalls (snd (transferCompressedNFT env c a sender receiver h)) =
       [(''getAsset'', toBase58 env a), (''getAssetProof'', toBase58 env a)]
   \<and> take 2 (snd (burnCompressedNFT env c a payer h)) =
       [Call (HeliusApi ''getAsset'' (toBase58 env a)),
        Call (HeliusApi ''getAssetProof'' (toBase58 env a))]
   \<and> heliusCalls (snd (burnCompressedNFT env c a payer h)) =
       [(''getAsset'', toBase58 env a), (''getAssetProof'', toBase58 env a)]"
  using shape_fetches [OF transfer_trace [of env c a sender receiver h]]
        shape_fetches [OF burn_trace [of env c a payer h]]
  by simp

text \<open>
  C6. In each of the four phases, when the submission of the transaction is fulfilled
  with a signature, the console receives the line
  \<^verbatim>\<open>https://explorer.solana.com/tx/<signature>?cluster=devnet\<close>; in \<^verbatim>\<open>createTree\<close> it
  also receives the line \<^verbatim>\<open>Tree Address:\<close> with the base58 encoding of the address of the
  tree account, which is the address the phase returns.
\<close>

theorem explorer_link_logged:
  "(txSignature \<in> set (signatures (snd (createTree env c payer pair cd h))) \<longrightarrow>
      ConsoleLog [''https://explorer.solana.com/tx/'' @ txSignature @ ''?cluster=devnet'']
        \<in> set (snd (createTree env c payer pair cd h))
      \<and> ConsoleLog [''Tree Address:'', toBase58 env (publicKey (generate env h))]
        \<in> set (snd (createTree env c payer pair cd h))
      \<and> fst (createTree env c payer pair cd h) = Inr (publicKey (generate env h)))
   \<and> (txSignature \<in> set (signatures (snd (mintCompressedNFT env c payer treeAddress h))) \<longrightarrow>
      ConsoleLog [''https://explorer.solana.com/tx/'' @ txSignature @ ''?cluster=devnet'']
        \<in> set (snd (mintCompressedNFT env c payer treeAddress h)))
   \<and> (txSignature \<in> set (signatures (snd (transferCompressedNFT env c a sender receiver h))) \<longrightarrow>
      ConsoleLog [''https://explorer.solana.com/tx/'' @ txSignature @ ''?cluster=devnet'']
        \<in> set (snd (transferCompressedNFT env c a sender receiver h)))
   \<and> (txSignature \<in> set (signatures (snd (burnCompressedNFT env c a payer h))) \<longrightarrow>
      ConsoleLog [''https://explorer.solana.com/tx/'' @ txSignature @ ''?cluster=devnet'']
        \<in> set (snd (burnCompressedNFT env c a payer h)))"
  using createTree_link [OF createTree_trace [of env c payer pair cd h]]
        mint_link [OF mint_trace [of env c payer treeAddress h]]
        shape_link [OF transfer_trace [of env c a sender receiver h]]
        shape_link [OF burn_trace [of env c a payer h]]
  by (auto simp: in_signatures explorerLink_def)

theorem explorer_link_logged_witness:
  "''sig+'' \<in> set (signatures (snd (createTree env0 (devnet env0) wallet1
                      \<lparr>maxDepth = 3, maxBufferSize = 8\<rparr> 0 [])))
   \<and> ConsoleLog [''https://explorer.solana.com/tx/sig+?cluster=devnet'']
        \<in> set (snd (createTree env0 (devnet env0) wallet1
                      \<lparr>maxDepth = 3, maxBufferSize = 8\<rparr> 0 []))
   \<and> ConsoleLog [''Tree Address:'', ''T'']
        \<in> set (snd (createTree env0 (devnet env0) wallet1
                      \<lparr>maxDepth = 3, maxBufferSize = 8\<rparr> 0 []))
   \<and> ''sig+'' \<in> set (signatures (snd (mintCompressedNFT env0 (devnet env0) wallet1
                      (PublicKey [7]) [])))
   \<and> ConsoleLog [''https://explorer.solana.com/tx/sig+?cluster=devnet'']
        \<in> set (snd (mintCompressedNFT env0 (devnet env0) wallet1 (PublicKey [7]) []))
   \<and> ''sig+'' \<in> set (signatures (snd (transferCompressedNFT env0 (devnet env0)
                      (PublicKey [21]) wallet1 wallet2 [])))
   \<and> ConsoleLog [''https://explorer.solana.com/tx/sig+?cluster=devnet'']
        \<in> set (snd (transferCompressedNFT env0 (devnet env0) (PublicKey [21])
                      wallet1 wallet2 []))
   \<and> ''sig+'' \<in> set (signatures (snd (burnCompressedNFT env0 (devnet env0)
                      (PublicKey [22]) wallet1 [])))
   \<and> ConsoleLog [''https://explorer.solana.com/tx/sig+?cluster=devnet'']
        \<in> set (snd (burnCompressedNFT env0 (devnet env0) (PublicKey [22]) wallet1 []))"
proof -
  have s1: "''sig+'' \<in> set (signatures (snd (createTree env0 (devnet env0) wallet1
                      \<lparr>maxDepth = 3, maxBufferSize = 8\<rparr> 0 [])))"
    by (simp add: run_defs env0_sel observer_defs)
  have s2: "''sig+'' \<in> set (signatures (snd (mintCompressedNFT env0 (devnet env0) wallet1
                      (PublicKey [7]) [])))"
    by (simp add: run_defs env0_sel observer_defs)
  have s3: "''sig+'' \<in> set (signatures (snd (transferCompressedNFT env0 (devnet env0)
                      (PublicKey [21]) wallet1 wallet2 [])))"
    by (simp add: run_defs env0_sel observer_defs)
  have s4: "''sig+'' \<in> set (signatures (snd (burnCompressedNFT env0 (devnet env0)
                      (PublicKey [22]) wallet1 [])))"
    by (simp add: run_defs env0_sel observer_defs)
  have t: "toBase58 env0 (publicKey (generate env0 [])) = ''T''"
    by (simp add: env0_sel base58Table_def)
  show ?thesis
    using s1 s2 s3 s4 t
      explorer_link_logged [where txSignature = "''sig+''" and env = env0
        and c = "devnet env0" and payer = wallet1
        and pair = "\<lparr>maxDepth = 3, maxBufferSize = 8\<rparr>" and cd = 0 and h = "[]"
        and treeAddress = "PublicKey [7]" and a = "PublicKey [21]" and sender = wallet1
        and receiver = wallet2]
      explorer_link_logged [where txSignature = "''sig+''" and env = env0
        and c = "devnet env0" and payer = wallet1 and h = "[]" and a = "PublicKey [22]"]
    by simp
qed

lemma tryCatch_bindE_rejected:
  "m h = (Inl e, t) \<Longrightarrow>
     tryCatch (bindE m f) (\<lambda>err. bindE (emit (ConsoleError msg err)) (\<lambda>_. throwE err)) h =
       (Inl e, t @ [ConsoleError msg e])"
  by (simp add: tryCatch_def bindE_def emit_def throwE_def)

lemma fetchBoth_both_rejected:
  assumes "heliusApi env (h @ [Call (HeliusApi ''getAsset'' (toBase58 env a)),
                               Call (HeliusApi ''getAssetProof'' (toBase58 env a))])
             ''getAsset'' (toBase58 env a) = Inl ea"
    and "heliusApi env (h @ [Call (HeliusApi ''getAsset'' (toBase58 env a)),
                             Call (HeliusApi ''getAssetProof'' (toBase58 env a))])
           ''getAssetProof'' (toBase58 env a) = Inl eb"
  shows "fetchBoth env a h =
           (if settlesFirst env (h @ [Call (HeliusApi ''getAsset'' (toBase58 env a)),
                                      Call (HeliusApi ''getAssetProof'' (toBase58 env a))])
            then (Inl ea,
                  [Call (HeliusApi ''getAsset'' (toBase58 env a)),
                   Call (HeliusApi ''getAssetProof'' (toBase58 env a)),
                   Rejected (HeliusApi ''getAsset'' (toBase58 env a)) ea])
            else (Inl eb,
                  [Call (HeliusApi ''getAsset'' (toBase58 env a)),
                   Call (HeliusApi ''getAssetProof'' (toBase58 env a)),
                   Rejected (HeliusApi ''getAssetProof'' (toBase58 env a)) eb]))"
  using assms by (simp add: fetchBoth_def awaitAll2_def Let_def)

lemma asset_phase_both_rejected:
  assumes "heliusApi env (h @ [Call (HeliusApi ''getAsset'' (toBase58 env a)),
                               Call (HeliusApi ''getAssetProof'' (toBase58 env a))])
             ''getAsset'' (toBase58 env a) = Inl ea"
    and "heliusApi env (h @ [Call (HeliusApi ''getAsset'' (toBase58 env a)),
                             Call (HeliusApi ''getAssetProof'' (toBase58 env a))])
           ''getAssetProof'' (toBase58 env a) = Inl eb"
  shows "tryCatch (bindE (fetchBoth env a) f)
           (\<lambda>err. bindE (emit (ConsoleError msg err)) (\<lambda>_. throwE err)) h =
           (if settlesFirst env (h @ [Call (HeliusApi ''getAsset'' (toBase58 env a)),
                                      Call (HeliusApi ''getAssetProof'' (toBase58 env a))])
            then (Inl ea,
                  [Call (HeliusApi ''getAsset'' (toBase58 env a)),
                   Call (HeliusApi ''getAssetProof'' (toBase58 env a)),
                   Rejected (HeliusApi ''getAsset'' (toBase58 env a)) ea,
                   ConsoleError msg ea])
            else (Inl eb,
                  [Call (HeliusApi ''getAsset'' (toBase58 env a)),
                   Call (HeliusApi ''getAssetProof'' (toBase58 env a)),
                   Rejected (HeliusApi ''getAssetProof'' (toBase58 env a)) eb,
                   ConsoleError msg eb]))"
proof (cases "settlesFirst env (h @ [Call (HeliusApi ''getAsset'' (toBase58 env a)),
                                     Call (HeliusApi ''getAssetProof'' (toBase58 env a))])")
  case True
  with fetchBoth_both_rejected [OF assms]
  have "fetchBoth env a h =
          (Inl ea,
           [Call (HeliusApi ''getAsset'' (toBase58 env a)),
            Call (HeliusApi ''getAssetProof'' (toBase58 env a)),
            Rejected (HeliusApi ''getAsset'' (toBase58 env a)) ea])"
    by simp
  from tryCatch_bindE_rejected [where m = "fetchBoth env a" and h = h, OF this] True show ?thesis by simp
next
  case False
  with fetchBoth_both_rejected [OF assms]
  have "fetchBoth env a h =
          (Inl eb,
           [Call (HeliusApi ''getAsset'' (toBase58 env a)),
            Call (HeliusApi ''getAssetProof'' (toBase58 env a)),
            Rejected (HeliusApi ''getAssetProof'' (toBase58 env a)) eb])"
    by simp
  from tryCatch_bindE_rejected [where m = "fetchBoth env a" and h = h, OF this] False show ?thesis by simp
qed

lemma envFetchesRejected_sel:
  "heliusApi envFetchesRejected h method ident =
     (if method = ''getAsset'' then Inl (Error ''asset unavailable'')
      else Inl (Error ''proof unavailable''))"
  "toBase58 envFetchesRejected = toBase58 env0"
  "settlesFirst envFetchesRejected h = True"
  "clusterApiUrl envFetchesRejected = clusterApiUrl env0"
  by (simp_all add: envFetchesRejected_def env0_def)

text \<open>
  C3, as the claim states it, fails in two ways.

  By the design of \<^verbatim>\<open>Promise.all\<close>: \<^verbatim>\<open>transferCompressedNFT\<close> and \<^verbatim>\<open>burnCompressedNFT\<close>
  await the two indexing requests together, and the promise passes on the first rejection
  only. When \<^verbatim>\<open>getAsset\<close> is rejected with one error and \<^verbatim>\<open>getAssetProof\<close> with another,
  the phase logs and rethrows the error of \<^verbatim>\<open>getAsset\<close>; the error that
  \<^verbatim>\<open>getAssetProof\<close> raised is neither logged nor rethrown.

  By the place of one \<^verbatim>\<open>await\<close>: in \<^verbatim>\<open>createTree\<close> the request \<^verbatim>\<open>createAllocTreeIx\<close> is
  awaited before the \<^verbatim>\<open>try\<close> block (lines 104 to 110, the block begins at line 131),
  while the other three phases have every remote call inside it. When that request is
  rejected, the error leaves the phase unchanged, but nothing is written to the console.
\<close>

theorem remote_error_not_logged_counterexample:
  "heliusApi envFetchesRejected
     [Call (HeliusApi ''getAsset'' ''A1''), Call (HeliusApi ''getAssetProof'' ''A1'')]
     ''getAssetProof'' ''A1'' = Inl (Error ''proof unavailable'')
   \<and> transferCompressedNFT envFetchesRejected (devnet envFetchesRejected) (PublicKey [21])
       wallet1 wallet2 [] =
       (Inl (Error ''asset unavailable''),
        [Call (HeliusApi ''getAsset'' ''A1''), Call (HeliusApi ''getAssetProof'' ''A1''),
         Rejected (HeliusApi ''getAsset'' ''A1'') (Error ''asset unavailable''),
         ConsoleError ''\<newline>Failed to transfer nft:'' (Error ''asset unavailable'')])
   \<and> \<not> loggedAndRethrown (Error ''proof unavailable'')
         (transferCompressedNFT envFetchesRejected (devnet envFetchesRejected)
            (PublicKey [21]) wallet1 wallet2 [])
   \<and> createTree envAllocRejected (devnet envAllocRejected) wallet1
       \<lparr>maxDepth = 3, maxBufferSize = 8\<rparr> 0 [] =
       (Inl (Error ''rpc unreachable''),
        [Call (CreateAllocTreeIx (devnet envAllocRejected) (PublicKey [7]) (PublicKey [11])
                 \<lparr>maxDepth = 3, maxBufferSize = 8\<rparr> 0),
         Rejected (CreateAllocTreeIx (devnet envAllocRejected) (PublicKey [7]) (PublicKey [11])
                 \<lparr>maxDepth = 3, maxBufferSize = 8\<rparr> 0) (Error ''rpc unreachable'')])
   \<and> \<not> loggedAndRethrown (Error ''rpc unreachable'')
         (createTree envAllocRejected (devnet envAllocRejected) wallet1
            \<lparr>maxDepth = 3, maxBufferSize = 8\<rparr> 0 [])"
proof -
  have a1: "toBase58 env0 (PublicKey [21]) = ''A1''"
    by (simp add: env0_sel base58Table_def)
  have t: "transferCompressedNFT envFetchesRejected (devnet envFetchesRejected)
             (PublicKey [21]) wallet1 wallet2 [] =
           (Inl (Error ''asset unavailable''),
            [Call (HeliusApi ''getAsset'' ''A1''), Call (HeliusApi ''getAssetProof'' ''A1''),
             Rejected (HeliusApi ''getAsset'' ''A1'') (Error ''asset unavailable''),
             ConsoleError ''\<newline>Failed to transfer nft:'' (Error ''asset unavailable'')])"
    unfolding transferCompressedNFT_def
    by (subst asset_phase_both_rejected
          [where ea = "Error ''asset unavailable''" and eb = "Error ''proof unavailable''"])
       (simp_all add: envFetchesRejected_sel a1)
  have c: "createTree envAllocRejected (devnet envAllocRejected) wallet1
             \<lparr>maxDepth = 3, maxBufferSize = 8\<rparr> 0 [] =
           (Inl (Error ''rpc unreachable''),
            [Call (CreateAllocTreeIx (devnet envAllocRejected) (PublicKey [7]) (PublicKey [11])
                     \<lparr>maxDepth = 3, maxBufferSize = 8\<rparr> 0),
             Rejected (CreateAllocTreeIx (devnet envAllocRejected) (PublicKey [7])
                     (PublicKey [11]) \<lparr>maxDepth = 3, maxBufferSize = 8\<rparr> 0)
               (Error ''rpc unreachable'')])"
    by (simp add: run_defs envAllocRejected_def env0_sel)
  show ?thesis
    unfolding t c by (simp add: loggedAndRethrown_def envFetchesRejected_sel)
qed

text \<open>
  C3, amended to what the phases do by design. A rejection that reaches the \<^verbatim>\<open>await\<close> of
  a phase inside its \<^verbatim>\<open>try\<close> block is logged with the failure message of the phase and
  then rethrown unchanged, and it is the last thing the phase does but for that message:
  nothing is retried, and no other error is put in its place. In
  \<^verbatim>\<open>mintCompressedNFT\<close>, \<^verbatim>\<open>transferCompressedNFT\<close> and \<^verbatim>\<open>burnCompressedNFT\<close> this holds
  for every rejection in the trace, in \<^verbatim>\<open>createTree\<close> for a rejection of the
  submission of the transaction. A rejection is in the trace for every request that
  rejects, but for one: when both indexing requests of a transfer or a burn reject, the
  phase ends with the error of the request that settles first and logs that one; the
  error of the other request appears nowhere. The statement says nothing about a
  rejection of \<^verbatim>\<open>createAllocTreeIx\<close>.
\<close>

theorem awaited_rejections_logged_and_rethrown:
  "(Rejected (SendAndConfirmTransaction c' tx ks opts) e
      \<in> set (snd (createTree env c payer pair cd h)) \<longrightarrow>
      fst (createTree env c payer pair cd h) = Inl e \<and>
      (\<exists>pre. snd (createTree env c payer pair cd h) =
               pre @ [Rejected (SendAndConfirmTransaction c' tx ks opts) e,
                      ConsoleError ''\<newline>Failed to create merkle tree:'' e]))
   \<and> (Rejected q e \<in> set (snd (mintCompressedNFT env c payer treeAddress h)) \<longrightarrow>
      fst (mintCompressedNFT env c payer treeAddress h) = Inl e \<and>
      (\<exists>pre. snd (mintCompressedNFT env c payer treeAddress h) =
               pre @ [Rejected q e, ConsoleError ''\<newline>Failed to mint compressed NFT:'' e]))
   \<and> (Rejected q e \<in> set (snd (transferCompressedNFT env c a sender receiver h)) \<longrightarrow>
      fst (transferCompressedNFT env c a sender receiver h) = Inl e \<and>
      (\<exists>pre. snd (transferCompressedNFT env c a sender receiver h) =
               pre @ [Rejected q e, ConsoleError ''\<newline>Failed to transfer nft:'' e]))
   \<and> (Rejected q e \<in> set (snd (burnCompressedNFT env c a payer h)) \<longrightarrow>
      fst (burnCompressedNFT env c a payer h) = Inl e \<and>
      (\<exists>pre. snd (burnCompressedNFT env c a payer h) =
               pre @ [Rejected q e, ConsoleError ''\<newline>Failed to burn NFT:'' e]))
   \<and> (heliusApi env (h @ [Call (HeliusApi ''getAsset'' (toBase58 env a)),
                          Call (HeliusApi ''getAssetProof'' (toBase58 env a))])
        ''getAsset'' (toBase58 env a) = Inl ea
      \<and> heliusApi env (h @ [Call (HeliusApi ''getAsset'' (toBase58 env a)),
                            Call (HeliusApi ''getAssetProof'' (toBase58 env a))])
          ''getAssetProof'' (toBase58 env a) = Inl eb \<longrightarrow>
      transferCompressedNFT env c a sender receiver h =
        (if settlesFirst env (h @ [Call (HeliusApi ''getAsset'' (toBase58 env a)),
                                   Call (HeliusApi ''getAssetProof'' (toBase58 env a))])
         then (Inl ea,
               [Call (HeliusApi ''getAsset'' (toBase58 env a)),
                Call (HeliusApi ''getAssetProof'' (toBase58 env a)),
                Rejected (HeliusApi ''getAsset'' (toBase58 env a)) ea,
                ConsoleError ''\<newline>Failed to transfer nft:'' ea])
         else (Inl eb,
               [Call (HeliusApi ''getAsset'' (toBase58 env a)),
                Call (HeliusApi ''getAssetProof'' (toBase58 env a)),
                Rejected (HeliusApi ''getAssetProof'' (toBase58 env a)) eb,
                ConsoleError ''\<newline>Failed to transfer nft:'' eb]))
      \<and> burnCompressedNFT env c a payer h =
        (if settlesFirst env (h @ [Call (HeliusApi ''getAsset'' (toBase58 env a)),
                                   Call (HeliusApi ''getAssetProof'' (toBase58 env a))])
         then (Inl ea,
               [Call (HeliusApi ''getAsset'' (toBase58 env a)),
                Call (HeliusApi ''getAssetProof'' (toBase58 env a)),
                Rejected (HeliusApi ''getAsset'' (toBase58 env a)) ea,
                ConsoleError ''\<newline>Failed to burn NFT:'' ea])
         else (Inl eb,
               [Call (HeliusApi ''getAsset'' (toBase58 env a)),
                Call (HeliusApi ''getAssetProof'' (toBase58 env a)),
                Rejected (HeliusApi ''getAssetProof'' (toBase58 env a)) eb,
                ConsoleError ''\<newline>Failed to burn NFT:'' eb])))"
proof (intro conjI impI)
  assume r: "Rejected (SendAndConfirmTransaction c' tx ks opts) e
               \<in> set (snd (createTree env c payer pair cd h))"
  from createTree_rejected [OF createTree_trace r]
  show "fst (createTree env c payer pair cd h) = Inl e" by simp
  from createTree_rejected [OF createTree_trace r]
  show "\<exists>pre. snd (createTree env c payer pair cd h) =
               pre @ [Rejected (SendAndConfirmTransaction c' tx ks opts) e,
                      ConsoleError ''\<newline>Failed to create merkle tree:'' e]"
    by auto
next
  assume r: "Rejected q e \<in> set (snd (mintCompressedNFT env c payer treeAddress h))"
  from mint_rejected [OF mint_trace r]
  show "fst (mintCompressedNFT env c payer treeAddress h) = Inl e"
    and "\<exists>pre. snd (mintCompressedNFT env c payer treeAddress h) =
               pre @ [Rejected q e, ConsoleError ''\<newline>Failed to mint compressed NFT:'' e]"
    by simp_all
next
  assume r: "Rejected q e \<in> set (snd (transferCompressedNFT env c a sender receiver h))"
  from shape_rejected [OF transfer_trace r]
  show "fst (transferCompressedNFT env c a sender receiver h) = Inl e"
    and "\<exists>pre. snd (transferCompressedNFT env c a sender receiver h) =
               pre @ [Rejected q e, ConsoleError ''\<newline>Failed to transfer nft:'' e]"
    by simp_all
next
  assume r: "Rejected q e \<in> set (snd (burnCompressedNFT env c a payer h))"
  from shape_rejected [OF burn_trace r]
  show "fst (burnCompressedNFT env c a payer h) = Inl e"
    and "\<exists>pre. snd (burnCompressedNFT env c a payer h) =
               pre @ [Rejected q e, ConsoleError ''\<newline>Failed to burn NFT:'' e]"
    by simp_all
next
  assume both:
    "heliusApi env (h @ [Call (HeliusApi ''getAsset'' (toBase58 env a)),
                         Call (HeliusApi ''getAssetProof'' (toBase58 env a))])
       ''getAsset'' (toBase58 env a) = Inl ea
     \<and> heliusApi env (h @ [Call (HeliusApi ''getAsset'' (toBase58 env a)),
                           Call (HeliusApi ''getAssetProof'' (toBase58 env a))])
         ''getAssetProof'' (toBase58 env a) = Inl eb"
  show "transferCompressedNFT env c a sender receiver h =
        (if settlesFirst env (h @ [Call (HeliusApi ''getAsset'' (toBase58 env a)),
                                   Call (HeliusApi ''getAssetProof'' (toBase58 env a))])
         then (Inl ea,
               [Call (HeliusApi ''getAsset'' (toBase58 env a)),
                Call (HeliusApi ''getAssetProof'' (toBase58 env a)),
                Rejected (HeliusApi ''getAsset'' (toBase58 env a)) ea,
                ConsoleError ''\<newline>Failed to transfer nft:'' ea])
         else (Inl eb,
               [Call (HeliusApi ''getAsset'' (toBase58 env a)),
                Call (HeliusApi ''getAssetProof'' (toBase58 env a)),
                Rejected (HeliusApi ''getAssetProof'' (toBase58 env a)) eb,
                ConsoleError ''\<newline>Failed to transfer nft:'' eb]))"
    unfolding transferCompressedNFT_def
    by (rule asset_phase_both_rejected [OF both [THEN conjunct1] both [THEN conjunct2]])
  show "burnCompressedNFT env c a payer h =
        (if settlesFirst env (h @ [Call (HeliusApi ''getAsset'' (toBase58 env a)),
                                   Call (HeliusApi ''getAssetProof'' (toBase58 env a))])
         then (Inl ea,
               [Call (HeliusApi ''getAsset'' (toBase58 env a)),
                Call (HeliusApi ''getAssetProof'' (toBase58 env a)),
                Rejected (HeliusApi ''getAsset'' (toBase58 env a)) ea,
                ConsoleError ''\<newline>Failed to burn NFT:'' ea])
         else (Inl eb,
               [Call (HeliusApi ''getAsset'' (toBase58 env a)),
                Call (HeliusApi ''getAssetProof'' (toBase58 env a)),
                Rejected (HeliusApi ''getAssetProof'' (toBase58 env a)) eb,
                ConsoleError ''\<newline>Failed to burn NFT:'' eb]))"
    unfolding burnCompressedNFT_def
    by (rule asset_phase_both_rejected [OF both [THEN conjunct1] both [THEN conjunct2]])
qed

theorem awaited_rejections_logged_and_rethrown_witness:
  "fst (createTree envSendRejected (devnet envSendRejected) wallet1
          \<lparr>maxDepth = 3, maxBufferSize = 8\<rparr> 0 []) = Inl (Error ''blockhash not found'')
   \<and> fst (mintCompressedNFT envSendRejected (devnet envSendRejected) wallet1
            (PublicKey [7]) []) = Inl (Error ''blockhash not found'')
   \<and> fst (transferCompressedNFT envNoTreeAccount (devnet envNoTreeAccount) (PublicKey [21])
            wallet1 wallet2 []) = Inl (Error ''account not found'')
   \<and> fst (burnCompressedNFT envNoTreeAccount (devnet envNoTreeAccount) (PublicKey [22])
            wallet1 []) = Inl (Error ''account not found'')
   \<and> transferCompressedNFT envFetchesRejected (devnet envFetchesRejected) (PublicKey [21])
       wallet1 wallet2 [] =
       (Inl (Error ''asset unavailable''),
        [Call (HeliusApi ''getAsset'' ''A1''), Call (HeliusApi ''getAssetProof'' ''A1''),
         Rejected (HeliusApi ''getAsset'' ''A1'') (Error ''asset unavailable''),
         ConsoleError ''\<newline>Failed to transfer nft:'' (Error ''asset unavailable'')])
   \<and> burnCompressedNFT envFetchesRejected (devnet envFetchesRejected) (PublicKey [21])
       wallet1 [] =
       (Inl (Error ''asset unavailable''),
        [Call (HeliusApi ''getAsset'' ''A1''), Call (HeliusApi ''getAssetProof'' ''A1''),
         Rejected (HeliusApi ''getAsset'' ''A1'') (Error ''asset unavailable''),
         ConsoleError ''\<newline>Failed to burn NFT:'' (Error ''asset unavailable'')])"
proof -
  let ?c = "devnet envSendRejected"
  let ?d = "devnet envNoTreeAccount"
  let ?f = "devnet envFetchesRejected"
  let ?kp = "\<lparr>publicKey = PublicKey [7], secretKey = [7]\<rparr>"
  let ?pair = "\<lparr>maxDepth = 3, maxBufferSize = 8\<rparr>"
  let ?q1 = "SendAndConfirmTransaction ?c
               (createTreeTx envSendRejected ?kp wallet1 ?pair
                  (TransactionInstruction (PublicKey [0]) [] []))
               [?kp, wallet1] confirmed"
  let ?q2 = "SendAndConfirmTransaction ?c (mintTx envSendRejected wallet1 (PublicKey [7]))
               [wallet1] confirmed"
  let ?q3 = "FromAccountAddress ?d (PublicKey [7])"
  let ?h = "[] @ [Call (HeliusApi ''getAsset'' (toBase58 envFetchesRejected (PublicKey [21]))),
                  Call (HeliusApi ''getAssetProof''
                          (toBase58 envFetchesRejected (PublicKey [21])))]"
  have r1: "Rejected ?q1 (Error ''blockhash not found'')
              \<in> set (snd (createTree envSendRejected ?c wallet1 ?pair 0 []))"
    by (simp add: run_defs envSendRejected_def env0_sel createTreeTx_def)
  have r2: "Rejected ?q2 (Error ''blockhash not found'')
              \<in> set (snd (mintCompressedNFT envSendRejected ?c wallet1 (PublicKey [7]) []))"
    by (simp add: run_defs envSendRejected_def env0_sel mintTx_def)
  have r3: "Rejected ?q3 (Error ''account not found'')
              \<in> set (snd (transferCompressedNFT envNoTreeAccount ?d (PublicKey [21])
                             wallet1 wallet2 []))"
    by (simp add: run_defs envNoTreeAccount_def env0_sel)
  have r4: "Rejected ?q3 (Error ''account not found'')
              \<in> set (snd (burnCompressedNFT envNoTreeAccount ?d (PublicKey [22]) wallet1 []))"
    by (simp add: run_defs envNoTreeAccount_def env0_sel)
  have a1: "toBase58 env0 (PublicKey [21]) = ''A1''"
    by (simp add: env0_sel base58Table_def)
  have o1: "heliusApi envFetchesRejected ?h ''getAsset''
              (toBase58 envFetchesRejected (PublicKey [21])) = Inl (Error ''asset unavailable'')"
    by (simp add: envFetchesRejected_sel)
  have o2: "heliusApi envFetchesRejected ?h ''getAssetProof''
              (toBase58 envFetchesRejected (PublicKey [21])) = Inl (Error ''proof unavailable'')"
    by (simp add: envFetchesRejected_sel)
  have c1: "fst (createTree envSendRejected ?c wallet1 ?pair 0 []) =
              Inl (Error ''blockhash not found'')"
    by (rule awaited_rejections_logged_and_rethrown
          [THEN conjunct1, THEN mp, OF r1, THEN conjunct1])
  have c2: "fst (mintCompressedNFT envSendRejected ?c wallet1 (PublicKey [7]) []) =
              Inl (Error ''blockhash not found'')"
    by (rule awaited_rejections_logged_and_rethrown
          [THEN conjunct2, THEN conjunct1, THEN mp, OF r2, THEN conjunct1])
  have c3: "fst (transferCompressedNFT envNoTreeAccount ?d (PublicKey [21])
                   wallet1 wallet2 []) = Inl (Error ''account not found'')"
    by (rule awaited_rejections_logged_and_rethrown
          [THEN conjunct2, THEN conjunct2, THEN conjunct1, THEN mp, OF r3, THEN conjunct1])
  have c4: "fst (burnCompressedNFT envNoTreeAccount ?d (PublicKey [22]) wallet1 []) =
              Inl (Error ''account not found'')"
    by (rule awaited_rejections_logged_and_rethrown
          [THEN conjunct2, THEN conjunct2, THEN conjunct2, THEN conjunct1, THEN mp, OF r4,
           THEN conjunct1])
  note both =
    awaited_rejections_logged_and_rethrown
      [where env = envFetchesRejected and a = "PublicKey [21]" and h = "[]" and c = ?f
         and sender = wallet1 and receiver = wallet2 and payer = wallet1,
       THEN conjunct2, THEN conjunct2, THEN conjunct2, THEN conjunct2, THEN mp,
       OF conjI [OF o1 o2]]
  have c5: "transferCompressedNFT envFetchesRejected ?f (PublicKey [21]) wallet1 wallet2 [] =
       (Inl (Error ''asset unavailable''),
        [Call (HeliusApi ''getAsset'' ''A1''), Call (HeliusApi ''getAssetProof'' ''A1''),
         Rejected (HeliusApi ''getAsset'' ''A1'') (Error ''asset unavailable''),
         ConsoleError ''\<newline>Failed to transfer nft:'' (Error ''asset unavailable'')])"
    using both [THEN conjunct1] by (simp add: envFetchesRejected_sel a1)
  have c6: "burnCompressedNFT envFetchesRejected ?f (PublicKey [21]) wallet1 [] =
       (Inl (Error ''asset unavailable''),
        [Call (HeliusApi ''getAsset'' ''A1''), Call (HeliusApi ''getAssetProof'' ''A1''),
         Rejected (HeliusApi ''getAsset'' ''A1'') (Error ''asset unavailable''),
         ConsoleError ''\<newline>Failed to burn NFT:'' (Error ''asset unavailable'')])"
    using both [THEN conjunct2] by (simp add: envFetchesRejected_sel a1)
  from c1 c2 c3 c4 c5 c6 show ?thesis by (intro conjI)
qed
section \<open>The instruction of a transfer and of a burn\<close>

lemma in_submitted:
  "tx \<in> set (submitted t) \<longleftrightarrow>
     (\<exists>c ks opts. Call (SendAndConfirmTransaction c tx ks opts) \<in> set t)"
  by (induction t) (auto simp: submitted_def sentTx_def split: event.splits request.splits)

lemma shape_submitted:
  assumes "assetPhaseShape env c a signer msg txOK h r t"
    and "tx \<in> set (submitted t)"
  shows "\<exists>cmpr own nodes root k ta.
           txOK cmpr own nodes root k ta tx
           \<and> (\<forall>i x. Fulfilled (HeliusApi ''getAsset'' i) (RHelius x) \<in> set t
                 \<longrightarrow> x = AssetData cmpr own)
           \<and> (\<forall>i y. Fulfilled (HeliusApi ''getAssetProof'' i) (RHelius y) \<in> set t
                 \<longrightarrow> y = AssetProofData nodes root)
           \<and> (\<forall>c' k' ta'. Fulfilled (FromAccountAddress c' k') (RTreeAccount ta') \<in> set t
                 \<longrightarrow> ta' = ta)"
  using assms
  by (auto simp: assetPhaseShape_def Let_def fetched_def submitted_def sentTx_def
           split: if_splits)

lemma mapE_length: "mapE f xs = Inr ys \<Longrightarrow> length ys = length xs"
  by (induction xs arbitrary: ys) (auto split: sum.splits)

lemma mapE_take: "mapE f xs = Inr ys \<Longrightarrow> mapE f (take n xs) = Inr (take n ys)"
proof (induction xs arbitrary: ys n)
  case Nil
  then show ?case by simp
next
  case (Cons x xs)
  then show ?case by (cases n) (auto split: sum.splits)
qed

lemma mapE_metas:
  "mapE (\<lambda>node. case newPublicKey env node of
                   Inl e \<Rightarrow> Inl e
                 | Inr k \<Rightarrow> Inr \<lparr>pubkey = k, isSigner = False, isWritable = False\<rparr>) xs
     = Inr metas
   \<Longrightarrow> mapE (newPublicKey env) xs = Inr (map pubkey metas)
       \<and> (\<forall>m\<in>set metas. \<not> isSigner m \<and> \<not> isWritable m)"
  by (induction xs arbitrary: metas) (auto split: sum.splits)

lemma slice_from_start:
  "0 \<le> n \<or> int (length xs) + n \<le> 0 \<Longrightarrow> slice xs 0 n = take (nat n) xs"
  by (auto simp: slice_def Let_def min_def max_def)

lemma proofPathOf_first_nodes:
  assumes "proofPathOf env nodes cd = Inr pp"
    and "cd \<le> int (length nodes) \<or> 2 * int (length nodes) \<le> cd"
  shows "mapE (newPublicKey env) (firstNodes nodes cd) = Inr (map pubkey pp)"
    and "\<forall>m\<in>set pp. \<not> isSigner m \<and> \<not> isWritable m"
    and "length pp = length (firstNodes nodes cd)"
proof -
  from assms(1) obtain metas where
    m: "mapE (\<lambda>node. case newPublicKey env node of
                   Inl e \<Rightarrow> Inl e
                 | Inr k \<Rightarrow> Inr \<lparr>pubkey = k, isSigner = False, isWritable = False\<rparr>) nodes
          = Inr metas"
    and pp: "pp = slice metas 0 (int (length nodes) - cd)"
    by (auto simp: proofPathOf_def split: sum.splits)
  have len: "length metas = length nodes" using m by (rule mapE_length)
  have "0 \<le> int (length nodes) - cd \<or> int (length metas) + (int (length nodes) - cd) \<le> 0"
    using assms(2) len by auto
  then have pp': "pp = take (nat (int (length nodes) - cd)) metas"
    unfolding pp by (rule slice_from_start)
  from mapE_metas [OF m] have keys: "mapE (newPublicKey env) nodes = Inr (map pubkey metas)"
    and flags: "\<forall>m\<in>set metas. \<not> isSigner m \<and> \<not> isWritable m" by simp_all
  show "mapE (newPublicKey env) (firstNodes nodes cd) = Inr (map pubkey pp)"
    using mapE_take [OF keys] by (simp add: firstNodes_def pp' take_map)
  show "\<forall>m\<in>set pp. \<not> isSigner m \<and> \<not> isWritable m"
    using flags by (auto simp: pp' dest: in_set_takeD)
  show "length pp = length (firstNodes nodes cd)"
    by (simp add: pp' firstNodes_def len)
qed

lemma orZero_id: "orZero x = x"
  by (simp add: orZero_def)

lemma transferTxOK_instruction:
  assumes "transferTxOK env sender receiver cmpr own nodes root k ta tx"
  shows "\<exists>accounts args programId.
           instructions tx = [TransferInstruction accounts args programId]
           \<and> proofPathOf env nodes (getCanopyDepth ta) =
               Inr (anchorRemainingAccounts_xfer accounts)
           \<and> nonce_xfer args = leaf_id cmpr
           \<and> index_xfer args = leaf_id cmpr
           \<and> newPublicKey env (owner own) = Inr (leafOwner_xfer accounts)
           \<and> delegateKey env own (leafOwner_xfer accounts) =
               Inr (leafDelegate_xfer accounts)"
  using assms by (clarsimp simp: transferTxOK_def orZero_id)

lemma burnTxOK_instruction:
  assumes "burnTxOK env payer cmpr own nodes root k ta tx"
  shows "\<exists>accounts args programId.
           instructions tx = [BurnInstruction accounts args programId]
           \<and> proofPathOf env nodes (getCanopyDepth ta) =
               Inr (anchorRemainingAccounts_burn accounts)
           \<and> nonce_burn args = leaf_id cmpr
           \<and> index_burn args = leaf_id cmpr
           \<and> newPublicKey env (owner own) = Inr (leafOwner_burn accounts)
           \<and> delegateKey env own (leafOwner_burn accounts) =
               Inr (leafDelegate_burn accounts)"
  using assms by (clarsimp simp: burnTxOK_def orZero_id)

lemma delegateKey_None:
  "delegateKey env own ok = Inr dk \<Longrightarrow> delegate own = None \<Longrightarrow> dk = ok"
  by (simp add: delegateKey_def)

text \<open>
  In \<^verbatim>\<open>transferCompressedNFT\<close> and in \<^verbatim>\<open>burnCompressedNFT\<close>, when the canopy depth of
  the tree account is at most the length of the fetched proof, or at least twice that
  length, the proof accounts of the submitted instruction are the keys of the first
  (length of the proof minus canopy depth) proof nodes, in the order of the proof, each
  neither signer nor writable; with canopy depth zero these are the keys of the whole
  proof. Between the two bounds \<^verbatim>\<open>slice\<close> is given a negative end index that does not
  reach the start of the array.
\<close>

lemma proof_accounts_are_first_nodes:
  "(tx \<in> set (submitted (snd (transferCompressedNFT env c a sender receiver h)))
    \<and> Fulfilled (HeliusApi ''getAssetProof'' i) (RHelius (AssetProofData nodes root))
        \<in> set (snd (transferCompressedNFT env c a sender receiver h))
    \<and> Fulfilled (FromAccountAddress c' k) (RTreeAccount ta)
        \<in> set (snd (transferCompressedNFT env c a sender receiver h))
    \<and> (getCanopyDepth ta \<le> int (length nodes)
       \<or> 2 * int (length nodes) \<le> getCanopyDepth ta)
    \<longrightarrow> (\<exists>accounts args programId.
          instructions tx = [TransferInstruction accounts args programId]
          \<and> mapE (newPublicKey env) (firstNodes nodes (getCanopyDepth ta)) =
              Inr (map pubkey (anchorRemainingAccounts_xfer accounts))
          \<and> (\<forall>m\<in>set (anchorRemainingAccounts_xfer accounts). \<not> isSigner m \<and> \<not> isWritable m)
          \<and> (getCanopyDepth ta = 0 \<longrightarrow>
               mapE (newPublicKey env) nodes =
                 Inr (map pubkey (anchorRemainingAccounts_xfer accounts)))))
   \<and> (tx \<in> set (submitted (snd (burnCompressedNFT env c a payer h)))
    \<and> Fulfilled (HeliusApi ''getAssetProof'' i) (RHelius (AssetProofData nodes root))
        \<in> set (snd (burnCompressedNFT env c a payer h))
    \<and> Fulfilled (FromAccountAddress c' k) (RTreeAccount ta)
        \<in> set (snd (burnCompressedNFT env c a payer h))
    \<and> (getCanopyDepth ta \<le> int (length nodes)
       \<or> 2 * int (length nodes) \<le> getCanopyDepth ta)
    \<longrightarrow> (\<exists>accounts args programId.
          instructions tx = [BurnInstruction accounts args programId]
          \<and> mapE (newPublicKey env) (firstNodes nodes (getCanopyDepth ta)) =
              Inr (map pubkey (anchorRemainingAccounts_burn accounts))
          \<and> (\<forall>m\<in>set (anchorRemainingAccounts_burn accounts). \<not> isSigner m \<and> \<not> isWritable m)
          \<and> (getCanopyDepth ta = 0 \<longrightarrow>
               mapE (newPublicKey env) nodes =
                 Inr (map pubkey (anchorRemainingAccounts_burn accounts)))))"
proof (intro conjI impI; elim conjE)
  assume tx: "tx \<in> set (submitted (snd (transferCompressedNFT env c a sender receiver h)))"
    and p: "Fulfilled (HeliusApi ''getAssetProof'' i) (RHelius (AssetProofData nodes root))
              \<in> set (snd (transferCompressedNFT env c a sender receiver h))"
    and f: "Fulfilled (FromAccountAddress c' k) (RTreeAccount ta)
              \<in> set (snd (transferCompressedNFT env c a sender receiver h))"
    and le: "getCanopyDepth ta \<le> int (length nodes)
             \<or> 2 * int (length nodes) \<le> getCanopyDepth ta"
  from shape_submitted [OF transfer_trace tx] p f
  obtain cmpr own k' where "transferTxOK env sender receiver cmpr own nodes root k' ta tx"
    by blast
  from transferTxOK_instruction [OF this] obtain accounts args programId where
    ix: "instructions tx = [TransferInstruction accounts args programId]"
    and pp: "proofPathOf env nodes (getCanopyDepth ta) =
               Inr (anchorRemainingAccounts_xfer accounts)"
    by blast
  from proofPathOf_first_nodes [OF pp le] ix
  show "\<exists>accounts args programId.
          instructions tx = [TransferInstruction accounts args programId]
          \<and> mapE (newPublicKey env) (firstNodes nodes (getCanopyDepth ta)) =
              Inr (map pubkey (anchorRemainingAccounts_xfer accounts))
          \<and> (\<forall>m\<in>set (anchorRemainingAccounts_xfer accounts). \<not> isSigner m \<and> \<not> isWritable m)
          \<and> (getCanopyDepth ta = 0 \<longrightarrow>
               mapE (newPublicKey env) nodes =
                 Inr (map pubkey (anchorRemainingAccounts_xfer accounts)))"
    by (auto simp: firstNodes_def)
next
  assume tx: "tx \<in> set (submitted (snd (burnCompressedNFT env c a payer h)))"
    and p: "Fulfilled (HeliusApi ''getAssetProof'' i) (RHelius (AssetProofData nodes root))
              \<in> set (snd (burnCompressedNFT env c a payer h))"
    and f: "Fulfilled (FromAccountAddress c' k) (RTreeAccount ta)
              \<in> set (snd (burnCompressedNFT env c a payer h))"
    and le: "getCanopyDepth ta \<le> int (length nodes)
             \<or> 2 * int (length nodes) \<le> getCanopyDepth ta"
  from shape_submitted [OF burn_trace tx] p f
  obtain cmpr own k' where "burnTxOK env payer cmpr own nodes root k' ta tx"
    by blast
  from burnTxOK_instruction [OF this] obtain accounts args programId where
    ix: "instructions tx = [BurnInstruction accounts args programId]"
    and pp: "proofPathOf env nodes (getCanopyDepth ta) =
               Inr (anchorRemainingAccounts_burn accounts)"
    by blast
  from proofPathOf_first_nodes [OF pp le] ix
  show "\<exists>accounts args programId.
          instructions tx = [BurnInstruction accounts args programId]
          \<and> mapE (newPublicKey env) (firstNodes nodes (getCanopyDepth ta)) =
              Inr (map pubkey (anchorRemainingAccounts_burn accounts))
          \<and> (\<forall>m\<in>set (anchorRemainingAccounts_burn accounts). \<not> isSigner m \<and> \<not> isWritable m)
          \<and> (getCanopyDepth ta = 0 \<longrightarrow>
               mapE (newPublicKey env) nodes =
                 Inr (map pubkey (anchorRemainingAccounts_burn accounts)))"
    by (auto simp: firstNodes_def)
qed

lemma proof_accounts_with_canopy_one:
  "(\<exists>tx accounts args programId.
      tx \<in> set (submitted (snd (transferCompressedNFT envCanopy1 (devnet envCanopy1)
                                   (PublicKey [21]) wallet1 wallet2 [])))
      \<and> instructions tx = [TransferInstruction accounts args programId]
      \<and> map pubkey (anchorRemainingAccounts_xfer accounts) = [PublicKey [41], PublicKey [42]])
   \<and> (\<exists>tx accounts args programId.
      tx \<in> set (submitted (snd (burnCompressedNFT envCanopy1 (devnet envCanopy1)
                                   (PublicKey [22]) wallet1 [])))
      \<and> instructions tx = [BurnInstruction accounts args programId]
      \<and> map pubkey (anchorRemainingAccounts_burn accounts) = [PublicKey [41], PublicKey [42]])"
proof -
  let ?c = "devnet envCanopy1"
  let ?ta = "\<lparr>getAuthority = PublicKey [8], getCanopyDepth = 1\<rparr>"
  let ?nds = "[''P1'', ''P2'', ''P3'']"
  let ?T = "snd (transferCompressedNFT envCanopy1 ?c (PublicKey [21]) wallet1 wallet2 [])"
  let ?B = "snd (burnCompressedNFT envCanopy1 ?c (PublicKey [22]) wallet1 [])"
  have keys: "mapE (newPublicKey envCanopy1) (firstNodes ?nds (getCanopyDepth ?ta)) =
                Inr [PublicKey [41], PublicKey [42]]"
    by (simp add: firstNodes_def envCanopy1_def env0_sel base58Table_def)
  have le: "getCanopyDepth ?ta \<le> int (length ?nds)
              \<or> 2 * int (length ?nds) \<le> getCanopyDepth ?ta" by simp
  have "\<exists>tx. tx \<in> set (submitted ?T)"
    by (simp add: run_defs envCanopy1_def env0_sel observer_defs)
  then obtain tx where tx: "tx \<in> set (submitted ?T)" ..
  have p: "Fulfilled (HeliusApi ''getAssetProof'' ''A1'') (RHelius (AssetProofData ?nds '' R ''))
             \<in> set ?T"
    by (simp add: run_defs envCanopy1_def env0_sel)
  have f: "Fulfilled (FromAccountAddress ?c (PublicKey [7])) (RTreeAccount ?ta) \<in> set ?T"
    by (simp add: run_defs envCanopy1_def env0_sel)
  from proof_accounts_are_first_nodes
         [THEN conjunct1, THEN mp, OF conjI [OF tx conjI [OF p conjI [OF f le]]]]
  have first: "\<exists>tx accounts args programId.
      tx \<in> set (submitted ?T)
      \<and> instructions tx = [TransferInstruction accounts args programId]
      \<and> map pubkey (anchorRemainingAccounts_xfer accounts) = [PublicKey [41], PublicKey [42]]"
    using tx keys by auto
  have "\<exists>tx. tx \<in> set (submitted ?B)"
    by (simp add: run_defs envCanopy1_def env0_sel observer_defs)
  then obtain tx' where tx': "tx' \<in> set (submitted ?B)" ..
  have p': "Fulfilled (HeliusApi ''getAssetProof'' ''A2'') (RHelius (AssetProofData ?nds '' R ''))
             \<in> set ?B"
    by (simp add: run_defs envCanopy1_def env0_sel)
  have f': "Fulfilled (FromAccountAddress ?c (PublicKey [7])) (RTreeAccount ?ta) \<in> set ?B"
    by (simp add: run_defs envCanopy1_def env0_sel)
  from proof_accounts_are_first_nodes
         [THEN conjunct2, THEN mp, OF conjI [OF tx' conjI [OF p' conjI [OF f' le]]]]
  have second: "\<exists>tx accounts args programId.
      tx \<in> set (submitted ?B)
      \<and> instructions tx = [BurnInstruction accounts args programId]
      \<and> map pubkey (anchorRemainingAccounts_burn accounts) = [PublicKey [41], PublicKey [42]]"
    using tx' keys by auto
  from first second show ?thesis by (rule conjI)
qed


text \<open>
  C10. In \<^verbatim>\<open>transferCompressedNFT\<close> and in \<^verbatim>\<open>burnCompressedNFT\<close> the arguments
  \<open>nonce\<close> and \<open>index\<close> of the submitted instruction are both the \<open>leaf_id\<close> of the fetched
  asset, its leaf owner is the key of the fetched owner, and when the ownership record has
  no delegate its leaf delegate is that same key.
\<close>

theorem delegate_falls_back_to_owner:
  "(tx \<in> set (submitted (snd (transferCompressedNFT env c a sender receiver h)))
    \<and> Fulfilled (HeliusApi ''getAsset'' i) (RHelius (AssetData cmpr own))
        \<in> set (snd (transferCompressedNFT env c a sender receiver h))
    \<longrightarrow> (\<exists>accounts args programId.
          instructions tx = [TransferInstruction accounts args programId]
          \<and> nonce_xfer args = leaf_id cmpr
          \<and> index_xfer args = leaf_id cmpr
          \<and> newPublicKey env (owner own) = Inr (leafOwner_xfer accounts)
          \<and> (delegate own = None \<longrightarrow> leafDelegate_xfer accounts = leafOwner_xfer accounts)))
   \<and> (tx \<in> set (submitted (snd (burnCompressedNFT env c a payer h)))
    \<and> Fulfilled (HeliusApi ''getAsset'' i) (RHelius (AssetData cmpr own))
        \<in> set (snd (burnCompressedNFT env c a payer h))
    \<longrightarrow> (\<exists>accounts args programId.
          instructions tx = [BurnInstruction accounts args programId]
          \<and> nonce_burn args = leaf_id cmpr
          \<and> index_burn args = leaf_id cmpr
          \<and> newPublicKey env (owner own) = Inr (leafOwner_burn accounts)
          \<and> (delegate own = None \<longrightarrow> leafDelegate_burn accounts = leafOwner_burn accounts)))"
proof (intro conjI impI; elim conjE)
  assume tx: "tx \<in> set (submitted (snd (transferCompressedNFT env c a sender receiver h)))"
    and g: "Fulfilled (HeliusApi ''getAsset'' i) (RHelius (AssetData cmpr own))
              \<in> set (snd (transferCompressedNFT env c a sender receiver h))"
  from shape_submitted [OF transfer_trace tx] g
  obtain nodes root k ta where "transferTxOK env sender receiver cmpr own nodes root k ta tx"
    by blast
  from transferTxOK_instruction [OF this]
  show "\<exists>accounts args programId.
          instructions tx = [TransferInstruction accounts args programId]
          \<and> nonce_xfer args = leaf_id cmpr
          \<and> index_xfer args = leaf_id cmpr
          \<and> newPublicKey env (owner own) = Inr (leafOwner_xfer accounts)
          \<and> (delegate own = None \<longrightarrow> leafDelegate_xfer accounts = leafOwner_xfer accounts)"
    by (blast dest: delegateKey_None)
next
  assume tx: "tx \<in> set (submitted (snd (burnCompressedNFT env c a payer h)))"
    and g: "Fulfilled (HeliusApi ''getAsset'' i) (RHelius (AssetData cmpr own))
              \<in> set (snd (burnCompressedNFT env c a payer h))"
  from shape_submitted [OF burn_trace tx] g
  obtain nodes root k ta where "burnTxOK env payer cmpr own nodes root k ta tx"
    by blast
  from burnTxOK_instruction [OF this]
  show "\<exists>accounts args programId.
          instructions tx = [BurnInstruction accounts args programId]
          \<and> nonce_burn args = leaf_id cmpr
          \<and> index_burn args = leaf_id cmpr
          \<and> newPublicKey env (owner own) = Inr (leafOwner_burn accounts)
          \<and> (delegate own = None \<longrightarrow> leafDelegate_burn accounts = leafOwner_burn accounts)"
    by (blast dest: delegateKey_None)
qed

theorem delegate_falls_back_to_owner_witness:
  "(\<exists>tx accounts args programId.
      tx \<in> set (submitted (snd (transferCompressedNFT env0 (devnet env0) (PublicKey [21])
                                   wallet1 wallet2 [])))
      \<and> instructions tx = [TransferInstruction accounts args programId]
      \<and> nonce_xfer args = 0 \<and> index_xfer args = 0
      \<and> leafOwner_xfer accounts = PublicKey [11]
      \<and> leafDelegate_xfer accounts = PublicKey [11])
   \<and> (\<exists>tx accounts args programId.
      tx \<in> set (submitted (snd (burnCompressedNFT env0 (devnet env0) (PublicKey [22])
                                   wallet1 [])))
      \<and> instructions tx = [BurnInstruction accounts args programId]
      \<and> nonce_burn args = 1 \<and> index_burn args = 1
      \<and> leafOwner_burn accounts = PublicKey [11]
      \<and> leafDelegate_burn accounts = PublicKey [11])"
proof -
  let ?c = "devnet env0"
  let ?own = "\<lparr>owner = ''W1'', delegate = None\<rparr>"
  let ?c1 = "\<lparr>tree = ''T'', data_hash = ''D'', creator_hash = ''C'', leaf_id = 0\<rparr>"
  let ?c2 = "\<lparr>tree = ''T'', data_hash = ''D'', creator_hash = ''C'', leaf_id = 1\<rparr>"
  let ?T = "snd (transferCompressedNFT env0 ?c (PublicKey [21]) wallet1 wallet2 [])"
  let ?B = "snd (burnCompressedNFT env0 ?c (PublicKey [22]) wallet1 [])"
  have ow: "newPublicKey env0 (owner ?own) = Inr (PublicKey [11])"
    by (simp add: env0_sel base58Table_def)
  have "\<exists>tx. tx \<in> set (submitted ?T)"
    by (simp add: run_defs env0_sel observer_defs)
  then obtain tx where tx: "tx \<in> set (submitted ?T)" ..
  have g: "Fulfilled (HeliusApi ''getAsset'' ''A1'') (RHelius (AssetData ?c1 ?own)) \<in> set ?T"
    by (simp add: run_defs env0_sel)
  from delegate_falls_back_to_owner [THEN conjunct1, THEN mp, OF conjI [OF tx g]]
  have first: "\<exists>tx accounts args programId.
      tx \<in> set (submitted ?T)
      \<and> instructions tx = [TransferInstruction accounts args programId]
      \<and> nonce_xfer args = 0 \<and> index_xfer args = 0
      \<and> leafOwner_xfer accounts = PublicKey [11]
      \<and> leafDelegate_xfer accounts = PublicKey [11]"
    using tx ow by auto
  have "\<exists>tx. tx \<in> set (submitted ?B)"
    by (simp add: run_defs env0_sel observer_defs)
  then obtain tx' where tx': "tx' \<in> set (submitted ?B)" ..
  have g': "Fulfilled (HeliusApi ''getAsset'' ''A2'') (RHelius (AssetData ?c2 ?own)) \<in> set ?B"
    by (simp add: run_defs env0_sel)
  from delegate_falls_back_to_owner [THEN conjunct2, THEN mp, OF conjI [OF tx' g']]
  have second: "\<exists>tx accounts args programId.
      tx \<in> set (submitted ?B)
      \<and> instructions tx = [BurnInstruction accounts args programId]
      \<and> nonce_burn args = 1 \<and> index_burn args = 1
      \<and> leafOwner_burn accounts = PublicKey [11]
      \<and> leafDelegate_burn accounts = PublicKey [11]"
    using tx' ow by auto
  from first second show ?thesis by (rule conjI)
qed

section \<open>The run of \<open>main\<close>\<close>

lemma bindE_eq:
  "bindE m f h = (r, t) \<longleftrightarrow>
     (\<exists>e. m h = (Inl e, t) \<and> r = Inl e)
     \<or> (\<exists>x t1 t2. m h = (Inr x, t1) \<and> f x (h @ t1) = (r, t2) \<and> t = t1 @ t2)"
  by (auto simp: bindE_def split: prod.splits sum.splits)

lemma await_eq:
  "await q w orc h = (r, t) \<longleftrightarrow>
     (\<exists>e. orc (h @ [Call q]) = Inl e \<and> r = Inl e \<and> t = [Call q, Rejected q e])
     \<or> (\<exists>v. orc (h @ [Call q]) = Inr v \<and> r = Inr v \<and> t = [Call q, Fulfilled q (w v)])"
  by (auto simp: await_def split: sum.splits)

lemma callNoAwait_eq:
  "callNoAwait q h = (r, t) \<longleftrightarrow> r = Inr () \<and> t = [Call q]"
  by (auto simp: callNoAwait_def emit_def)

text \<open>Where a run of \<open>main\<close> can end: at a wallet that cannot be loaded, at the failure
  of one of the first four phases, or with the outcome of the burn.\<close>

lemma main_run:
  assumes "main env h = (r, t)"
  shows
    "(\<exists>e. r = Inl e \<and>
        t = [Call (GetOrCreateKeypair ''Wallet_1''),
             Rejected (GetOrCreateKeypair ''Wallet_1'') e])
     \<or> (\<exists>e w. r = Inl e \<and>
        t = [Call (GetOrCreateKeypair ''Wallet_1''),
             Fulfilled (GetOrCreateKeypair ''Wallet_1'') (RKeypair w),
             Call (GetOrCreateKeypair ''Wallet_2''),
             Rejected (GetOrCreateKeypair ''Wallet_2'') e])
     \<or> (\<exists>w w2 e t1. r = Inl e \<and> t = walletsLoaded w w2 @ t1 \<and>
        createTree env (devnet env) w \<lparr>maxDepth = 3, maxBufferSize = 8\<rparr> 0
          (h @ walletsLoaded w w2) = (Inl e, t1))
     \<or> (\<exists>w w2 treeAddress t1 e t2. r = Inl e \<and> t = walletsLoaded w w2 @ t1 @ t2 \<and>
        createTree env (devnet env) w \<lparr>maxDepth = 3, maxBufferSize = 8\<rparr> 0
          (h @ walletsLoaded w w2) = (Inr treeAddress, t1) \<and>
        mintCompressedNFT env (devnet env) w treeAddress (h @ walletsLoaded w w2 @ t1) =
          (Inl e, t2))
     \<or> (\<exists>w w2 treeAddress t1 assetId1 t2 e t3. r = Inl e \<and>
        t = walletsLoaded w w2 @ t1 @ t2 @ t3 \<and>
        createTree env (devnet env) w \<lparr>maxDepth = 3, maxBufferSize = 8\<rparr> 0
          (h @ walletsLoaded w w2) = (Inr treeAddress, t1) \<and>
        mintCompressedNFT env (devnet env) w treeAddress (h @ walletsLoaded w w2 @ t1) =
          (Inr assetId1, t2) \<and>
        mintCompressedNFT env (devnet env) w treeAddress (h @ walletsLoaded w w2 @ t1 @ t2) =
          (Inl e, t3))
     \<or> (\<exists>w w2 treeAddress t1 assetId1 t2 assetId2 t3 e t4. r = Inl e \<and>
        t = walletsLoaded w w2 @ t1 @ t2 @ t3 @ t4 \<and>
        createTree env (devnet env) w \<lparr>maxDepth = 3, maxBufferSize = 8\<rparr> 0
          (h @ walletsLoaded w w2) = (Inr treeAddress, t1) \<and>
        mintCompressedNFT env (devnet env) w treeAddress (h @ walletsLoaded w w2 @ t1) =
          (Inr assetId1, t2) \<and>
        mintCompressedNFT env (devnet env) w treeAddress (h @ walletsLoaded w w2 @ t1 @ t2) =
          (Inr assetId2, t3) \<and>
        transferCompressedNFT env (devnet env) assetId1 w w2
          (h @ walletsLoaded w w2 @ t1 @ t2 @ t3) = (Inl e, t4))
     \<or> (\<exists>w w2 treeAddress t1 assetId1 t2 assetId2 t3 t4 t5.
        t = walletsLoaded w w2 @ t1 @ t2 @ t3 @ t4 @ t5 \<and>
        createTree env (devnet env) w \<lparr>maxDepth = 3, maxBufferSize = 8\<rparr> 0
          (h @ walletsLoaded w w2) = (Inr treeAddress, t1) \<and>
        mintCompressedNFT env (devnet env) w treeAddress (h @ walletsLoaded w w2 @ t1) =
          (Inr assetId1, t2) \<and>
        mintCompressedNFT env (devnet env) w treeAddress (h @ walletsLoaded w w2 @ t1 @ t2) =
          (Inr assetId2, t3) \<and>
        transferCompressedNFT env (devnet env) assetId1 w w2
          (h @ walletsLoaded w w2 @ t1 @ t2 @ t3) = (Inr (), t4) \<and>
        burnCompressedNFT env (devnet env) assetId2 w
          (h @ walletsLoaded w w2 @ t1 @ t2 @ t3 @ t4) = (r, t5))"
  using assms
  apply (simp add: main_def Let_def bindE_eq await_eq callNoAwait_eq walletsLoaded_def)
  apply (elim disjE exE conjE)
        apply simp
       apply simp
      apply (simp; blast)
     apply (simp; blast)
    apply (simp; blast)
   apply (simp; blast)
  apply (simp; blast)
  done

section \<open>What the phases submit\<close>

lemma submitted_append: "submitted (t @ t') = submitted t @ submitted t'"
  by (simp add: submitted_def)

lemma phasesOf_append: "phasesOf (t @ t') = phasesOf t @ phasesOf t'"
  by (simp add: phasesOf_def submitted_append)

lemma walletsLoaded_submitted: "submitted (walletsLoaded w w2) = []"
  by (simp add: walletsLoaded_def submitted_def sentTx_def)

lemma createTree_submitted:
  assumes "createTreeShape env c payer pair cd h r t"
  shows "submitted t = [] \<or>
         (\<exists>ix. submitted t = [createTreeTx env (generate env h) payer pair ix])"
    and "r = Inr treeAddress \<Longrightarrow>
         treeAddress = publicKey (generate env h) \<and>
         (\<exists>ix. submitted t = [createTreeTx env (generate env h) payer pair ix])"
  using assms by (auto simp: createTreeShape_def Let_def submitted_def sentTx_def)

lemma mint_submitted:
  assumes "mintShape env c payer treeAddress r t"
  shows "submitted t = [mintTx env payer treeAddress]"
  using assms by (auto simp: mintShape_def Let_def submitted_def sentTx_def)

lemma shape_submitted_count:
  assumes "assetPhaseShape env c a signer msg txOK h r t"
  shows "length (submitted t) \<le> 1"
    and "r = Inr u \<Longrightarrow> length (submitted t) = 1"
  using assms
  by (auto simp: assetPhaseShape_def Let_def fetched_def submitted_def sentTx_def
           split: if_splits)

lemma createTreeTx_phases: "concat (map ixPhase (instructions (createTreeTx env kp payer pair ix))) = [CreateTree]"
  by (simp add: createTreeTx_def ixPhase_def)

lemma mintTx_phases: "concat (map ixPhase (instructions (mintTx env payer treeAddress))) = [Mint]"
  by (simp add: mintTx_def ixPhase_def)

lemma createTree_phases:
  assumes "createTree env c payer pair cd h = (Inr treeAddress, t)"
  shows "phasesOf t = [CreateTree]"
  using createTree_submitted(2) [OF createTree_trace [of env c payer pair cd h]] assms
  by (auto simp: phasesOf_def createTreeTx_phases)

lemma mint_phases: "phasesOf (snd (mintCompressedNFT env c payer treeAddress h)) = [Mint]"
  using mint_submitted [OF mint_trace [of env c payer treeAddress h]]
  by (simp add: phasesOf_def mintTx_phases)

lemma singleton_list: "length xs = 1 \<Longrightarrow> \<exists>x. xs = [x]"
  by (cases xs) auto

lemma transfer_phases:
  assumes "transferCompressedNFT env c a sender receiver h = (Inr u, t)"
  shows "phasesOf t = [Transfer]"
proof -
  have sh: "assetPhaseShape env c a sender ''\<newline>Failed to transfer nft:''
              (transferTxOK env sender receiver) h (Inr u) t"
    using transfer_trace [of env c a sender receiver h] assms by simp
  from shape_submitted_count(2) [OF sh] obtain tx where tx: "submitted t = [tx]"
    by (blast dest: singleton_list)
  then have "tx \<in> set (submitted t)" by simp
  from shape_submitted [OF sh this]
  obtain cmpr own nodes root k ta where
    "transferTxOK env sender receiver cmpr own nodes root k ta tx" by blast
  from transferTxOK_instruction [OF this] tx show ?thesis
    by (auto simp: phasesOf_def ixPhase_def)
qed

lemma burn_phases:
  assumes "burnCompressedNFT env c a payer h = (Inr u, t)"
  shows "phasesOf t = [Burn]"
proof -
  have sh: "assetPhaseShape env c a payer ''\<newline>Failed to burn NFT:''
              (burnTxOK env payer) h (Inr u) t"
    using burn_trace [of env c a payer h] assms by simp
  from shape_submitted_count(2) [OF sh] obtain tx where tx: "submitted t = [tx]"
    by (blast dest: singleton_list)
  then have "tx \<in> set (submitted t)" by simp
  from shape_submitted [OF sh this]
  obtain cmpr own nodes root k ta where
    "burnTxOK env payer cmpr own nodes root k ta tx" by blast
  from burnTxOK_instruction [OF this] tx show ?thesis
    by (auto simp: phasesOf_def ixPhase_def)
qed

section \<open>Outcomes in the concrete environments\<close>

lemma fst_bindE:
  "fst (bindE m f h) =
     (case fst (m h) of Inl e \<Rightarrow> Inl e | Inr x \<Rightarrow> fst (f x (h @ snd (m h))))"
  by (simp add: bindE_def split: prod.splits sum.splits)

lemma fst_await: "fst (await q w orc h) = orc (h @ [Call q])"
  by (simp add: await_def split: sum.splits)

lemma fst_callNoAwait: "fst (callNoAwait q h) = Inr ()"
  by (simp add: callNoAwait_def emit_def)

lemma wallet_keys: "publicKey wallet1 = PublicKey [11]" "publicKey wallet2 = PublicKey [12]"
  by (simp_all add: wallet1_def wallet2_def)

lemmas phase_defs =
  createTree_def mintCompressedNFT_def transferCompressedNFT_def burnCompressedNFT_def
  fetchBoth_def delegateKey_def proofPathOf_def keyBytes_def slice_def u32_def trim_def
  isWhiteSpace_def orZero_def base58Table_def bindE_def tryCatch_def await_def
  awaitAll2_def returnE_def throwE_def liftE_def sync_def emit_def isSend_def Let_def

lemma createTree_env0: "fst (createTree env0 c payer pair cd h) = Inr (PublicKey [7])"
  by (simp add: phase_defs env0_sel)

lemma mint_env0:
  "fst (mintCompressedNFT env0 c payer treeAddress h) =
     Inr (if length (filter isSend h) = 1 then PublicKey [21] else PublicKey [22])"
  by (simp add: phase_defs env0_sel)

lemma transfer_env0: "fst (transferCompressedNFT env0 c a sender receiver h) = Inr ()"
  by (simp add: phase_defs env0_sel)

lemma burn_env0: "fst (burnCompressedNFT env0 c a payer h) = Inr ()"
  by (simp add: phase_defs env0_sel)

lemma main_env0: "fst (main env0 h) = Inr ()"
  by (simp add: main_def Let_def fst_bindE fst_await fst_callNoAwait env0_sel
        createTree_env0 mint_env0 transfer_env0 burn_env0)

lemma createTree_envNoTreeAccount:
  "fst (createTree envNoTreeAccount c payer pair cd h) = Inr (PublicKey [7])"
  by (simp add: phase_defs envNoTreeAccount_def env0_sel)

lemma mint_envNoTreeAccount:
  "fst (mintCompressedNFT envNoTreeAccount c payer treeAddress h) =
     Inr (if length (filter isSend h) = 1 then PublicKey [21] else PublicKey [22])"
  by (simp add: phase_defs envNoTreeAccount_def env0_sel)

lemma transfer_envNoTreeAccount:
  "fst (transferCompressedNFT envNoTreeAccount c a sender receiver h) =
     Inl (Error ''account not found'')"
  by (simp add: phase_defs envNoTreeAccount_def env0_sel)

lemma createTree_envAllocRejected:
  "fst (createTree envAllocRejected c payer pair cd h) = Inl (Error ''rpc unreachable'')"
  by (simp add: phase_defs envAllocRejected_def env0_sel)

section \<open>The claims about \<open>main\<close>\<close>

text \<open>
  C1. A run of \<open>main\<close> that completes without error is the run of the five phases in
  the order create tree, mint, mint, transfer, burn, each successful: the tree is created
  for the first wallet with the fixed parameters, both mints are into the address the
  creation returned, the transfer is of the asset the first mint returned, with
  \<^verbatim>\<open>Wallet_1\<close> as sender and \<^verbatim>\<open>Wallet_2\<close> as receiver, and the burn is of the asset the
  second mint returned. The Bubblegum instructions submitted are, in this order, one
  create-tree, two mints, one transfer and one burn.
\<close>

theorem main_runs_the_five_phases:
  assumes "main env h = (Inr u, t)"
  shows "\<exists>wallet wallet2 treeAddress assetId1 assetId2 t1 t2 t3 t4 t5.
           t = walletsLoaded wallet wallet2 @ t1 @ t2 @ t3 @ t4 @ t5
           \<and> createTree env (devnet env) wallet \<lparr>maxDepth = 3, maxBufferSize = 8\<rparr> 0
               (h @ walletsLoaded wallet wallet2) = (Inr treeAddress, t1)
           \<and> mintCompressedNFT env (devnet env) wallet treeAddress
               (h @ walletsLoaded wallet wallet2 @ t1) = (Inr assetId1, t2)
           \<and> mintCompressedNFT env (devnet env) wallet treeAddress
               (h @ walletsLoaded wallet wallet2 @ t1 @ t2) = (Inr assetId2, t3)
           \<and> transferCompressedNFT env (devnet env) assetId1 wallet wallet2
               (h @ walletsLoaded wallet wallet2 @ t1 @ t2 @ t3) = (Inr (), t4)
           \<and> burnCompressedNFT env (devnet env) assetId2 wallet
               (h @ walletsLoaded wallet wallet2 @ t1 @ t2 @ t3 @ t4) = (Inr (), t5)
           \<and> phasesOf t = [CreateTree, Mint, Mint, Transfer, Burn]"
proof -
  from main_run [OF assms]
  obtain w w2 treeAddress t1 assetId1 t2 assetId2 t3 t4 t5 where
    t: "t = walletsLoaded w w2 @ t1 @ t2 @ t3 @ t4 @ t5"
    and ct: "createTree env (devnet env) w \<lparr>maxDepth = 3, maxBufferSize = 8\<rparr> 0
               (h @ walletsLoaded w w2) = (Inr treeAddress, t1)"
    and m1: "mintCompressedNFT env (devnet env) w treeAddress (h @ walletsLoaded w w2 @ t1) =
               (Inr assetId1, t2)"
    and m2: "mintCompressedNFT env (devnet env) w treeAddress
               (h @ walletsLoaded w w2 @ t1 @ t2) = (Inr assetId2, t3)"
    and tr: "transferCompressedNFT env (devnet env) assetId1 w w2
               (h @ walletsLoaded w w2 @ t1 @ t2 @ t3) = (Inr (), t4)"
    and bu: "burnCompressedNFT env (devnet env) assetId2 w
               (h @ walletsLoaded w w2 @ t1 @ t2 @ t3 @ t4) = (Inr u, t5)"
    by (elim disjE exE conjE) simp_all
  have p0: "phasesOf (walletsLoaded w w2) = []"
    by (simp add: phasesOf_def walletsLoaded_submitted)
  have p1: "phasesOf t1 = [CreateTree]" using ct by (rule createTree_phases)
  have p2: "phasesOf t2 = [Mint]"
    using mint_phases [of env "devnet env" w treeAddress "h @ walletsLoaded w w2 @ t1"] m1
    by simp
  have p3: "phasesOf t3 = [Mint]"
    using mint_phases [of env "devnet env" w treeAddress "h @ walletsLoaded w w2 @ t1 @ t2"]
      m2
    by simp
  have p4: "phasesOf t4 = [Transfer]" using tr by (rule transfer_phases)
  have p5: "phasesOf t5 = [Burn]" using bu by (rule burn_phases)
  have ph: "phasesOf t = [CreateTree, Mint, Mint, Transfer, Burn]"
    by (simp add: t phasesOf_append p0 p1 p2 p3 p4 p5)
  have bu': "burnCompressedNFT env (devnet env) assetId2 w
               (h @ walletsLoaded w w2 @ t1 @ t2 @ t3 @ t4) = (Inr (), t5)"
    using bu by simp
  show ?thesis
    apply (intro exI conjI)
          apply (rule t)
         apply (rule ct)
        apply (rule m1)
       apply (rule m2)
      apply (rule tr)
     apply (rule bu')
    apply (rule ph)
    done
qed

theorem main_runs_the_five_phases_witness:
  "main env0 [] = (Inr (), snd (main env0 []))
   \<and> phasesOf (snd (main env0 [])) = [CreateTree, Mint, Mint, Transfer, Burn]"
proof -
  have run: "main env0 [] = (Inr (), snd (main env0 []))"
    using main_env0 [of "[]"] by (simp add: prod_eq_iff)
  from main_runs_the_five_phases [OF run]
  have "phasesOf (snd (main env0 [])) = [CreateTree, Mint, Mint, Transfer, Burn]"
    by blast
  with run show ?thesis by (rule conjI)
qed

text \<open>
  C4. When a phase of \<open>main\<close> raises an error, \<open>main\<close> ends with that error, and its
  trace ends with the trace of the failing phase: no later phase is entered, so nothing
  is built or submitted after it.
\<close>

theorem phase_error_aborts_main:
  assumes "getOrCreateKeypair env (h @ [Call (GetOrCreateKeypair ''Wallet_1'')]) ''Wallet_1'' =
             Inr wallet"
    and "getOrCreateKeypair env
           (h @ [Call (GetOrCreateKeypair ''Wallet_1''),
                 Fulfilled (GetOrCreateKeypair ''Wallet_1'') (RKeypair wallet),
                 Call (GetOrCreateKeypair ''Wallet_2'')]) ''Wallet_2'' = Inr wallet2"
  shows
    "(createTree env (devnet env) wallet \<lparr>maxDepth = 3, maxBufferSize = 8\<rparr> 0
        (h @ walletsLoaded wallet wallet2) = (Inl e, t1)
      \<longrightarrow> main env h = (Inl e, walletsLoaded wallet wallet2 @ t1))
     \<and> (createTree env (devnet env) wallet \<lparr>maxDepth = 3, maxBufferSize = 8\<rparr> 0
          (h @ walletsLoaded wallet wallet2) = (Inr treeAddress, t1)
        \<and> mintCompressedNFT env (devnet env) wallet treeAddress
            (h @ walletsLoaded wallet wallet2 @ t1) = (Inl e, t2)
      \<longrightarrow> main env h = (Inl e, walletsLoaded wallet wallet2 @ t1 @ t2))
     \<and> (createTree env (devnet env) wallet \<lparr>maxDepth = 3, maxBufferSize = 8\<rparr> 0
          (h @ walletsLoaded wallet wallet2) = (Inr treeAddress, t1)
        \<and> mintCompressedNFT env (devnet env) wallet treeAddress
            (h @ walletsLoaded wallet wallet2 @ t1) = (Inr assetId1, t2)
        \<and> mintCompressedNFT env (devnet env) wallet treeAddress
            (h @ walletsLoaded wallet wallet2 @ t1 @ t2) = (Inl e, t3)
      \<longrightarrow> main env h = (Inl e, walletsLoaded wallet wallet2 @ t1 @ t2 @ t3))
     \<and> (createTree env (devnet env) wallet \<lparr>maxDepth = 3, maxBufferSize = 8\<rparr> 0
          (h @ walletsLoaded wallet wallet2) = (Inr treeAddress, t1)
        \<and> mintCompressedNFT env (devnet env) wallet treeAddress
            (h @ walletsLoaded wallet wallet2 @ t1) = (Inr assetId1, t2)
        \<and> mintCompressedNFT env (devnet env) wallet treeAddress
            (h @ walletsLoaded wallet wallet2 @ t1 @ t2) = (Inr assetId2, t3)
        \<and> transferCompressedNFT env (devnet env) assetId1 wallet wallet2
            (h @ walletsLoaded wallet wallet2 @ t1 @ t2 @ t3) = (Inl e, t4)
      \<longrightarrow> main env h = (Inl e, walletsLoaded wallet wallet2 @ t1 @ t2 @ t3 @ t4))
     \<and> (createTree env (devnet env) wallet \<lparr>maxDepth = 3, maxBufferSize = 8\<rparr> 0
          (h @ walletsLoaded wallet wallet2) = (Inr treeAddress, t1)
        \<and> mintCompressedNFT env (devnet env) wallet treeAddress
            (h @ walletsLoaded wallet wallet2 @ t1) = (Inr assetId1, t2)
        \<and> mintCompressedNFT env (devnet env) wallet treeAddress
            (h @ walletsLoaded wallet wallet2 @ t1 @ t2) = (Inr assetId2, t3)
        \<and> transferCompressedNFT env (devnet env) assetId1 wallet wallet2
            (h @ walletsLoaded wallet wallet2 @ t1 @ t2 @ t3) = (Inr (), t4)
        \<and> burnCompressedNFT env (devnet env) assetId2 wallet
            (h @ walletsLoaded wallet wallet2 @ t1 @ t2 @ t3 @ t4) = (Inl e, t5)
      \<longrightarrow> main env h = (Inl e, walletsLoaded wallet wallet2 @ t1 @ t2 @ t3 @ t4 @ t5))"
  using assms
  by (simp add: main_def Let_def bindE_def await_def callNoAwait_def emit_def
        walletsLoaded_def)

theorem phase_error_aborts_main_witness:
  "fst (main envNoTreeAccount []) = Inl (Error ''account not found'')
   \<and> fst (main envAllocRejected []) = Inl (Error ''rpc unreachable'')"
proof -
  let ?env = envNoTreeAccount
  let ?c = "devnet ?env"
  let ?pair = "\<lparr>maxDepth = 3, maxBufferSize = 8\<rparr>"
  let ?h0 = "walletsLoaded wallet1 wallet2"
  let ?t1 = "snd (createTree ?env ?c wallet1 ?pair 0 ?h0)"
  let ?t2 = "snd (mintCompressedNFT ?env ?c wallet1 (PublicKey [7]) (?h0 @ ?t1))"
  let ?t3 = "snd (mintCompressedNFT ?env ?c wallet1 (PublicKey [7]) (?h0 @ ?t1 @ ?t2))"
  let ?t4 = "snd (transferCompressedNFT ?env ?c (PublicKey [21]) wallet1 wallet2
                    (?h0 @ ?t1 @ ?t2 @ ?t3))"
  let ?a1 = "if length (filter isSend (?h0 @ ?t1)) = 1 then PublicKey [21] else PublicKey [22]"
  let ?a2 = "if length (filter isSend (?h0 @ ?t1 @ ?t2)) = 1
             then PublicKey [21] else PublicKey [22]"
  have sends: "length (filter isSend (?h0 @ ?t1)) = 1"
    by (simp add: phase_defs envNoTreeAccount_def env0_sel walletsLoaded_def)
  have w1: "getOrCreateKeypair ?env ([] @ [Call (GetOrCreateKeypair ''Wallet_1'')]) ''Wallet_1''
              = Inr wallet1"
    by (simp add: envNoTreeAccount_def env0_sel)
  have w2: "getOrCreateKeypair ?env
              ([] @ [Call (GetOrCreateKeypair ''Wallet_1''),
                     Fulfilled (GetOrCreateKeypair ''Wallet_1'') (RKeypair wallet1),
                     Call (GetOrCreateKeypair ''Wallet_2'')]) ''Wallet_2'' = Inr wallet2"
    by (simp add: envNoTreeAccount_def env0_sel)
  have ct: "createTree ?env ?c wallet1 ?pair 0 ([] @ ?h0) = (Inr (PublicKey [7]), ?t1)"
    using createTree_envNoTreeAccount [of ?c wallet1 ?pair 0 ?h0] by (simp add: prod_eq_iff)
  have m1: "mintCompressedNFT ?env ?c wallet1 (PublicKey [7]) ([] @ ?h0 @ ?t1) =
              (Inr (PublicKey [21]), ?t2)"
    using mint_envNoTreeAccount [of ?c wallet1 "PublicKey [7]" "?h0 @ ?t1"] sends
    by (simp add: prod_eq_iff)
  have m2: "mintCompressedNFT ?env ?c wallet1 (PublicKey [7]) ([] @ ?h0 @ ?t1 @ ?t2) =
              (Inr ?a2, ?t3)"
    using mint_envNoTreeAccount [of ?c wallet1 "PublicKey [7]" "?h0 @ ?t1 @ ?t2"]
    by (simp add: prod_eq_iff)
  have tr: "transferCompressedNFT ?env ?c (PublicKey [21]) wallet1 wallet2
              ([] @ ?h0 @ ?t1 @ ?t2 @ ?t3) = (Inl (Error ''account not found''), ?t4)"
    using transfer_envNoTreeAccount [of ?c "PublicKey [21]" wallet1 wallet2
            "?h0 @ ?t1 @ ?t2 @ ?t3"]
    by (simp add: prod_eq_iff)
  from phase_error_aborts_main [OF w1 w2, THEN conjunct2, THEN conjunct2, THEN conjunct2,
         THEN conjunct1, THEN mp, OF conjI [OF ct conjI [OF m1 conjI [OF m2 tr]]]]
  have first: "fst (main ?env []) = Inl (Error ''account not found'')"
    by simp
  let ?env' = envAllocRejected
  let ?c' = "devnet ?env'"
  have w1': "getOrCreateKeypair ?env' ([] @ [Call (GetOrCreateKeypair ''Wallet_1'')])
               ''Wallet_1'' = Inr wallet1"
    by (simp add: envAllocRejected_def env0_sel)
  have w2': "getOrCreateKeypair ?env'
              ([] @ [Call (GetOrCreateKeypair ''Wallet_1''),
                     Fulfilled (GetOrCreateKeypair ''Wallet_1'') (RKeypair wallet1),
                     Call (GetOrCreateKeypair ''Wallet_2'')]) ''Wallet_2'' = Inr wallet2"
    by (simp add: envAllocRejected_def env0_sel)
  have ct': "createTree ?env' ?c' wallet1 ?pair 0 ([] @ ?h0) =
               (Inl (Error ''rpc unreachable''),
                snd (createTree ?env' ?c' wallet1 ?pair 0 ([] @ ?h0)))"
    using createTree_envAllocRejected [of ?c' wallet1 ?pair 0 "[] @ ?h0"]
    by (simp add: prod_eq_iff)
  from phase_error_aborts_main [OF w1' w2', THEN conjunct1, THEN mp, OF ct']
  have second: "fst (main ?env' []) = Inl (Error ''rpc unreachable'')"
    by simp
  from first second show ?thesis by (rule conjI)
qed

section \<open>The transactions of a run of \<open>main\<close>\<close>

lemma createTree_tx:
  assumes "createTree env c payer pair cd h = (r, t)" and "tx \<in> set (submitted t)"
  shows "\<exists>ix. tx = createTreeTx env (generate env h) payer pair ix"
  using createTree_submitted(1) [OF createTree_trace [of env c payer pair cd h]] assms
  by auto

lemma mint_tx:
  assumes "mintCompressedNFT env c payer treeAddress h = (r, t)"
    and "tx \<in> set (submitted t)"
  shows "tx = mintTx env payer treeAddress"
  using mint_submitted [OF mint_trace [of env c payer treeAddress h]] assms
  by auto

lemma transfer_tx:
  assumes "transferCompressedNFT env c a sender receiver h = (r, t)"
    and "tx \<in> set (submitted t)"
  shows "\<exists>accounts args programId.
           instructions tx = [TransferInstruction accounts args programId]"
proof -
  from assms have "tx \<in> set (submitted (snd (transferCompressedNFT env c a sender receiver h)))"
    by simp
  from shape_submitted [OF transfer_trace this]
  obtain cmpr own nodes root k ta where
    "transferTxOK env sender receiver cmpr own nodes root k ta tx" by blast
  from transferTxOK_instruction [OF this] show ?thesis by blast
qed

lemma burn_tx:
  assumes "burnCompressedNFT env c a payer h = (r, t)"
    and "tx \<in> set (submitted t)"
  shows "\<exists>accounts args programId. instructions tx = [BurnInstruction accounts args programId]"
proof -
  from assms have "tx \<in> set (submitted (snd (burnCompressedNFT env c a payer h)))"
    by simp
  from shape_submitted [OF burn_trace this]
  obtain cmpr own nodes root k ta where
    "burnTxOK env payer cmpr own nodes root k ta tx" by blast
  from burnTxOK_instruction [OF this] show ?thesis by blast
qed

lemma ofCreateTreeI:
  "createTree env c w \<lparr>maxDepth = 3, maxBufferSize = 8\<rparr> cd hc = (r, t1)
   \<Longrightarrow> tx \<in> set (submitted t1) \<Longrightarrow> ofCreateTree env tx"
  unfolding ofCreateTree_def by (blast dest: createTree_tx)

lemma ofMintI:
  "createTree env (devnet env) w \<lparr>maxDepth = 3, maxBufferSize = 8\<rparr> 0 (h @ pre) =
     (Inr treeAddress, t1)
   \<Longrightarrow> t = pre @ t1 @ post
   \<Longrightarrow> mintCompressedNFT env c w treeAddress hm = (r, t2)
   \<Longrightarrow> tx \<in> set (submitted t2) \<Longrightarrow> ofMint env h t tx"
  unfolding ofMint_def by (blast dest: mint_tx)

lemma ofTransferI:
  "transferCompressedNFT env c a sender receiver ht = (r, t4)
   \<Longrightarrow> tx \<in> set (submitted t4) \<Longrightarrow> ofTransfer tx"
  unfolding ofTransfer_def by (rule transfer_tx)

lemma ofBurnI:
  "burnCompressedNFT env c a payer hb = (r, t5)
   \<Longrightarrow> tx \<in> set (submitted t5) \<Longrightarrow> ofBurn tx"
  unfolding ofBurn_def by (rule burn_tx)

lemma main_submitted:
  assumes "main env h = (r, t)" and "tx \<in> set (submitted t)"
  shows "ofCreateTree env tx \<or> ofMint env h t tx \<or> ofTransfer tx \<or> ofBurn tx"
  using main_run [OF assms(1)]
proof (elim disjE exE conjE)
  fix e
  assume "t = [Call (GetOrCreateKeypair ''Wallet_1''),
               Rejected (GetOrCreateKeypair ''Wallet_1'') e]"
  with assms(2) show ?thesis by (simp add: submitted_def sentTx_def)
next
  fix e w
  assume "t = [Call (GetOrCreateKeypair ''Wallet_1''),
               Fulfilled (GetOrCreateKeypair ''Wallet_1'') (RKeypair w),
               Call (GetOrCreateKeypair ''Wallet_2''),
               Rejected (GetOrCreateKeypair ''Wallet_2'') e]"
  with assms(2) show ?thesis by (simp add: submitted_def sentTx_def)
next
  fix w w2 e t1
  assume t: "t = walletsLoaded w w2 @ t1"
    and ct: "createTree env (devnet env) w \<lparr>maxDepth = 3, maxBufferSize = 8\<rparr> 0
               (h @ walletsLoaded w w2) = (Inl e, t1)"
  from assms(2) t have "tx \<in> set (submitted t1)"
    by (simp add: submitted_append walletsLoaded_submitted)
  from ofCreateTreeI [OF ct this] show ?thesis by simp
next
  fix w w2 treeAddress t1 e t2
  assume t: "t = walletsLoaded w w2 @ t1 @ t2"
    and ct: "createTree env (devnet env) w \<lparr>maxDepth = 3, maxBufferSize = 8\<rparr> 0
               (h @ walletsLoaded w w2) = (Inr treeAddress, t1)"
    and m1: "mintCompressedNFT env (devnet env) w treeAddress (h @ walletsLoaded w w2 @ t1) =
               (Inl e, t2)"
  from assms(2) t have "tx \<in> set (submitted t1) \<or> tx \<in> set (submitted t2)"
    by (auto simp: submitted_append walletsLoaded_submitted)
  with ofCreateTreeI [OF ct] ofMintI [OF ct t m1] show ?thesis by blast
next
  fix w w2 treeAddress t1 assetId1 t2 e t3
  assume t: "t = walletsLoaded w w2 @ t1 @ t2 @ t3"
    and ct: "createTree env (devnet env) w \<lparr>maxDepth = 3, maxBufferSize = 8\<rparr> 0
               (h @ walletsLoaded w w2) = (Inr treeAddress, t1)"
    and m1: "mintCompressedNFT env (devnet env) w treeAddress (h @ walletsLoaded w w2 @ t1) =
               (Inr assetId1, t2)"
    and m2: "mintCompressedNFT env (devnet env) w treeAddress
               (h @ walletsLoaded w w2 @ t1 @ t2) = (Inl e, t3)"
  from assms(2) t
  have "tx \<in> set (submitted t1) \<or> tx \<in> set (submitted t2) \<or> tx \<in> set (submitted t3)"
    by (auto simp: submitted_append walletsLoaded_submitted)
  with ofCreateTreeI [OF ct] ofMintI [OF ct t m1] ofMintI [OF ct t m2]
  show ?thesis by blast
next
  fix w w2 treeAddress t1 assetId1 t2 assetId2 t3 e t4
  assume t: "t = walletsLoaded w w2 @ t1 @ t2 @ t3 @ t4"
    and ct: "createTree env (devnet env) w \<lparr>maxDepth = 3, maxBufferSize = 8\<rparr> 0
               (h @ walletsLoaded w w2) = (Inr treeAddress, t1)"
    and m1: "mintCompressedNFT env (devnet env) w treeAddress (h @ walletsLoaded w w2 @ t1) =
               (Inr assetId1, t2)"
    and m2: "mintCompressedNFT env (devnet env) w treeAddress
               (h @ walletsLoaded w w2 @ t1 @ t2) = (Inr assetId2, t3)"
    and tr: "transferCompressedNFT env (devnet env) assetId1 w w2
               (h @ walletsLoaded w w2 @ t1 @ t2 @ t3) = (Inl e, t4)"
  from assms(2) t
  have "tx \<in> set (submitted t1) \<or> tx \<in> set (submitted t2) \<or> tx \<in> set (submitted t3)
        \<or> tx \<in> set (submitted t4)"
    by (auto simp: submitted_append walletsLoaded_submitted)
  with ofCreateTreeI [OF ct] ofMintI [OF ct t m1] ofMintI [OF ct t m2] ofTransferI [OF tr]
  show ?thesis by blast
next
  fix w w2 treeAddress t1 assetId1 t2 assetId2 t3 t4 t5
  assume t: "t = walletsLoaded w w2 @ t1 @ t2 @ t3 @ t4 @ t5"
    and ct: "createTree env (devnet env) w \<lparr>maxDepth = 3, maxBufferSize = 8\<rparr> 0
               (h @ walletsLoaded w w2) = (Inr treeAddress, t1)"
    and m1: "mintCompressedNFT env (devnet env) w treeAddress (h @ walletsLoaded w w2 @ t1) =
               (Inr assetId1, t2)"
    and m2: "mintCompressedNFT env (devnet env) w treeAddress
               (h @ walletsLoaded w w2 @ t1 @ t2) = (Inr assetId2, t3)"
    and tr: "transferCompressedNFT env (devnet env) assetId1 w w2
               (h @ walletsLoaded w w2 @ t1 @ t2 @ t3) = (Inr (), t4)"
    and bu: "burnCompressedNFT env (devnet env) assetId2 w
               (h @ walletsLoaded w w2 @ t1 @ t2 @ t3 @ t4) = (r, t5)"
  from assms(2) t
  have "tx \<in> set (submitted t1) \<or> tx \<in> set (submitted t2) \<or> tx \<in> set (submitted t3)
        \<or> tx \<in> set (submitted t4) \<or> tx \<in> set (submitted t5)"
    by (auto simp: submitted_append walletsLoaded_submitted)
  with ofCreateTreeI [OF ct] ofMintI [OF ct t m1] ofMintI [OF ct t m2] ofTransferI [OF tr]
    ofBurnI [OF bu]
  show ?thesis by blast
qed

lemma createTree_alloc:
  assumes "createTree env c payer pair cd h = (r, t)"
    and "Call (CreateAllocTreeIx c' k p pair' cd') \<in> set t"
  shows "pair' = pair \<and> cd' = cd"
  using createTree_trace [of env c payer pair cd h] assms
  by (auto simp: createTreeShape_def Let_def)

lemma mint_alloc:
  assumes "mintCompressedNFT env c payer treeAddress h = (r, t)"
  shows "Call (CreateAllocTreeIx c' k p pair' cd') \<notin> set t"
  using mint_trace [of env c payer treeAddress h] assms
  by (auto simp: mintShape_def Let_def)

lemma shape_alloc:
  assumes "assetPhaseShape env c a signer msg txOK h r t"
  shows "Call (CreateAllocTreeIx c' k p pair' cd') \<notin> set t"
  using assms by (auto simp: assetPhaseShape_def Let_def fetched_def split: if_splits)

lemma transfer_alloc:
  assumes "transferCompressedNFT env c a sender receiver h = (r, t)"
  shows "Call (CreateAllocTreeIx c' k p pair' cd') \<notin> set t"
  using shape_alloc [OF transfer_trace [of env c a sender receiver h]] assms by simp

lemma burn_alloc:
  assumes "burnCompressedNFT env c a payer h = (r, t)"
  shows "Call (CreateAllocTreeIx c' k p pair' cd') \<notin> set t"
  using shape_alloc [OF burn_trace [of env c a payer h]] assms by simp

lemma main_alloc:
  assumes "main env h = (r, t)"
    and "Call (CreateAllocTreeIx c k p pair cd) \<in> set t"
  shows "pair = \<lparr>maxDepth = 3, maxBufferSize = 8\<rparr> \<and> cd = 0"
  using main_run [OF assms(1)] assms(2)
  by (elim disjE exE conjE)
     (auto simp: walletsLoaded_def
           dest: createTree_alloc mint_alloc transfer_alloc burn_alloc)

text \<open>
  C9. In every run of \<open>main\<close>, the allocation instruction of the tree is requested for
  depth 3, buffer size 8 and canopy depth 0, and every create-tree instruction submitted
  has depth 3 (so at most \<open>2 ^ 3 = 8\<close> leaves), buffer size 8 and \<open>public = false\<close>, with
  the payer of the transaction as payer and as tree creator.
\<close>

theorem tree_parameters_are_fixed:
  "(Call (CreateAllocTreeIx c treeKey payerKey pair canopyDepth) \<in> set (snd (main env h))
      \<longrightarrow> maxDepth pair = 3 \<and> maxBufferSize pair = 8 \<and> canopyDepth = 0
          \<and> (2::nat) ^ maxDepth pair = 8)
   \<and> (tx \<in> set (submitted (snd (main env h)))
      \<and> CreateTreeInstruction accounts args programId \<in> set (instructions tx)
      \<longrightarrow> maxDepth_ct args = 3 \<and> maxBufferSize_ct args = 8 \<and> public_ct args = False
          \<and> (2::nat) ^ maxDepth_ct args = 8
          \<and> treeCreator_ct accounts = payer_ct accounts
          \<and> feePayer tx = Some (payer_ct accounts))"
proof (rule conjI; rule impI)
  assume "Call (CreateAllocTreeIx c treeKey payerKey pair canopyDepth) \<in> set (snd (main env h))"
  moreover have "main env h = (fst (main env h), snd (main env h))" by simp
  ultimately have "pair = \<lparr>maxDepth = 3, maxBufferSize = 8\<rparr> \<and> canopyDepth = 0"
    by (rule main_alloc [rotated])
  then show "maxDepth pair = 3 \<and> maxBufferSize pair = 8 \<and> canopyDepth = 0
             \<and> (2::nat) ^ maxDepth pair = 8" by simp
next
  assume a: "tx \<in> set (submitted (snd (main env h)))
             \<and> CreateTreeInstruction accounts args programId \<in> set (instructions tx)"
  then have tx: "tx \<in> set (submitted (snd (main env h)))"
    and ix: "CreateTreeInstruction accounts args programId \<in> set (instructions tx)"
    by simp_all
  have "main env h = (fst (main env h), snd (main env h))" by simp
  from main_submitted [OF this tx]
  have "ofCreateTree env tx"
    using ix by (auto simp: ofMint_def ofTransfer_def ofBurn_def mintTx_def)
  with ix show "maxDepth_ct args = 3 \<and> maxBufferSize_ct args = 8 \<and> public_ct args = False
             \<and> (2::nat) ^ maxDepth_ct args = 8
             \<and> treeCreator_ct accounts = payer_ct accounts
             \<and> feePayer tx = Some (payer_ct accounts)"
    by (auto simp: ofCreateTree_def createTreeTx_def)
qed

lemma createTree_calls_alloc:
  assumes "createTree env c payer pair cd h = (r, t)"
  shows "\<exists>rest. t = Call (CreateAllocTreeIx c (publicKey (generate env h)) (publicKey payer)
                           pair cd) # rest"
  using createTree_trace [of env c payer pair cd h] assms
  by (auto simp: createTreeShape_def Let_def)

lemma main_env0_run:
  obtains w w2 treeAddress assetId1 assetId2 t1 t2 t3 t4 t5 where
    "snd (main env0 []) = walletsLoaded w w2 @ t1 @ t2 @ t3 @ t4 @ t5"
    "createTree env0 (devnet env0) w \<lparr>maxDepth = 3, maxBufferSize = 8\<rparr> 0
       ([] @ walletsLoaded w w2) = (Inr treeAddress, t1)"
    "mintCompressedNFT env0 (devnet env0) w treeAddress ([] @ walletsLoaded w w2 @ t1) =
       (Inr assetId1, t2)"
proof -
  have "main env0 [] = (Inr (), snd (main env0 []))"
    using main_env0 [of "[]"] by (simp add: prod_eq_iff)
  from main_run [OF this] that show thesis
    by (elim disjE exE conjE) simp_all
qed

theorem tree_parameters_are_fixed_witness:
  "(\<exists>c treeKey payerKey pair canopyDepth.
      Call (CreateAllocTreeIx c treeKey payerKey pair canopyDepth) \<in> set (snd (main env0 []))
      \<and> maxDepth pair = 3 \<and> maxBufferSize pair = 8 \<and> canopyDepth = 0)
   \<and> (\<exists>tx accounts args programId.
        tx \<in> set (submitted (snd (main env0 [])))
        \<and> CreateTreeInstruction accounts args programId \<in> set (instructions tx)
        \<and> maxDepth_ct args = 3 \<and> maxBufferSize_ct args = 8 \<and> public_ct args = False
        \<and> treeCreator_ct accounts = payer_ct accounts)"
proof -
  obtain w w2 treeAddress assetId1 assetId2 t1 t2 t3 t4 t5 where
    t: "snd (main env0 []) = walletsLoaded w w2 @ t1 @ t2 @ t3 @ t4 @ t5"
    and ct: "createTree env0 (devnet env0) w \<lparr>maxDepth = 3, maxBufferSize = 8\<rparr> 0
               ([] @ walletsLoaded w w2) = (Inr treeAddress, t1)"
    by (rule main_env0_run)
  from createTree_calls_alloc [OF ct] obtain rest where
    "t1 = Call (CreateAllocTreeIx (devnet env0)
                  (publicKey (generate env0 ([] @ walletsLoaded w w2))) (publicKey w)
                  \<lparr>maxDepth = 3, maxBufferSize = 8\<rparr> 0) # rest"
    by blast
  then have "Call (CreateAllocTreeIx (devnet env0)
                     (publicKey (generate env0 ([] @ walletsLoaded w w2))) (publicKey w)
                     \<lparr>maxDepth = 3, maxBufferSize = 8\<rparr> 0) \<in> set (snd (main env0 []))"
    by (simp add: t)
  from this tree_parameters_are_fixed [THEN conjunct1, THEN mp, OF this]
  have alloc: "\<exists>c treeKey payerKey pair canopyDepth.
      Call (CreateAllocTreeIx c treeKey payerKey pair canopyDepth) \<in> set (snd (main env0 []))
      \<and> maxDepth pair = 3 \<and> maxBufferSize pair = 8 \<and> canopyDepth = 0"
    by blast
  from createTree_submitted(2) [OF createTree_trace [of env0 "devnet env0" w
          "\<lparr>maxDepth = 3, maxBufferSize = 8\<rparr>" 0 "[] @ walletsLoaded w w2"], of treeAddress] ct
  obtain ix where
    "submitted t1 = [createTreeTx env0 (generate env0 ([] @ walletsLoaded w w2)) w
                       \<lparr>maxDepth = 3, maxBufferSize = 8\<rparr> ix]"
    by auto
  then have tx: "createTreeTx env0 (generate env0 ([] @ walletsLoaded w w2)) w
                   \<lparr>maxDepth = 3, maxBufferSize = 8\<rparr> ix \<in> set (submitted (snd (main env0 [])))"
    by (simp add: t submitted_append)
  obtain accounts args programId where
    ix: "CreateTreeInstruction accounts args programId
           \<in> set (instructions (createTreeTx env0 (generate env0 ([] @ walletsLoaded w w2)) w
                                  \<lparr>maxDepth = 3, maxBufferSize = 8\<rparr> ix))"
    by (simp add: createTreeTx_def)
  from tree_parameters_are_fixed [THEN conjunct2, THEN mp, OF conjI [OF tx ix]] tx ix
  have "\<exists>tx accounts args programId.
        tx \<in> set (submitted (snd (main env0 [])))
        \<and> CreateTreeInstruction accounts args programId \<in> set (instructions tx)
        \<and> maxDepth_ct args = 3 \<and> maxBufferSize_ct args = 8 \<and> public_ct args = False
        \<and> treeCreator_ct accounts = payer_ct accounts"
    by blast
  with alloc show ?thesis by (rule conjI)
qed

text \<open>
  C7. Every mint instruction submitted in a run of \<open>main\<close> has as its \<open>merkleTree\<close>
  the address that the create-tree phase of that run returned, and as its
  \<open>treeAuthority\<close> the program-derived address of that tree address under the Bubblegum
  program.
\<close>

theorem mints_use_the_created_tree:
  assumes "tx \<in> set (submitted (snd (main env h)))"
    and "MintV1Instruction accounts args \<in> set (instructions tx)"
  shows "\<exists>wallet pre t1 post.
           createTree env (devnet env) wallet \<lparr>maxDepth = 3, maxBufferSize = 8\<rparr> 0 (h @ pre) =
             (Inr (merkleTree_mint accounts), t1)
           \<and> snd (main env h) = pre @ t1 @ post
           \<and> treeAuthority_mint accounts =
               fst (findProgramAddressSync env [toBuffer (merkleTree_mint accounts)]
                      (BUBBLEGUM_PROGRAM_ID env))"
proof -
  have "main env h = (fst (main env h), snd (main env h))" by simp
  from main_submitted [OF this assms(1)]
  have "ofMint env h (snd (main env h)) tx"
    using assms(2)
    by (auto simp: ofCreateTree_def ofTransfer_def ofBurn_def createTreeTx_def)
  then obtain w pre treeAddress t1 post where
    ct: "createTree env (devnet env) w \<lparr>maxDepth = 3, maxBufferSize = 8\<rparr> 0 (h @ pre) =
           (Inr treeAddress, t1)"
    and t: "snd (main env h) = pre @ t1 @ post"
    and tx: "tx = mintTx env w treeAddress"
    unfolding ofMint_def by blast
  from assms(2) tx have "merkleTree_mint accounts = treeAddress"
    and "treeAuthority_mint accounts =
           fst (findProgramAddressSync env [toBuffer treeAddress] (BUBBLEGUM_PROGRAM_ID env))"
    by (auto simp: mintTx_def)
  with ct t show ?thesis by blast
qed

theorem mints_use_the_created_tree_witness:
  "\<exists>tx accounts args.
     tx \<in> set (submitted (snd (main env0 [])))
     \<and> MintV1Instruction accounts args \<in> set (instructions tx)
     \<and> (\<exists>wallet pre t1 post.
          createTree env0 (devnet env0) wallet \<lparr>maxDepth = 3, maxBufferSize = 8\<rparr> 0
            ([] @ pre) = (Inr (merkleTree_mint accounts), t1)
          \<and> snd (main env0 []) = pre @ t1 @ post)"
proof -
  obtain w w2 treeAddress assetId1 assetId2 t1 t2 t3 t4 t5 where
    t: "snd (main env0 []) = walletsLoaded w w2 @ t1 @ t2 @ t3 @ t4 @ t5"
    and m1: "mintCompressedNFT env0 (devnet env0) w treeAddress
               ([] @ walletsLoaded w w2 @ t1) = (Inr assetId1, t2)"
    by (rule main_env0_run)
  from mint_submitted [OF mint_trace [of env0 "devnet env0" w treeAddress
          "[] @ walletsLoaded w w2 @ t1"]] m1
  have "submitted t2 = [mintTx env0 w treeAddress]" by simp
  then have tx: "mintTx env0 w treeAddress \<in> set (submitted (snd (main env0 [])))"
    by (simp add: t submitted_append)
  obtain accounts args where
    ix: "MintV1Instruction accounts args \<in> set (instructions (mintTx env0 w treeAddress))"
    by (simp add: mintTx_def)
  from mints_use_the_created_tree [OF tx ix] tx ix show ?thesis by blast
qed

section \<open>The order of the requests\<close>

lemma pending_append: "pending p (t @ t') = pending (pending p t) t'"
  by (induction t arbitrary: p) (auto split: event.splits)

lemma obeys_append:
  "obeys allowed p (t @ t') = (obeys allowed p t \<and> obeys allowed (pending p t) t')"
  by (induction t arbitrary: p) (auto split: event.splits)

lemma awaitedPart_append: "awaitedPart (t @ t') = awaitedPart t @ awaitedPart t'"
  by (simp add: awaitedPart_def)

lemma not_sequential_two_calls:
  assumes "take 2 t = [Call a, Call b]"
  shows "\<not> sequential t"
proof -
  from assms obtain rest where "t = Call a # Call b # rest"
    by (cases t; cases "tl t") auto
  then show ?thesis by (simp add: sequential_def)
qed

lemma not_sequential_after_airdrop:
  "\<not> sequential (walletsLoaded w w2 @ Call q # rest)"
  by (simp add: sequential_def walletsLoaded_def)

lemma wallets_quiet:
  "obeys fetchPair [] (awaitedPart (walletsLoaded w w2))"
  "pending [] (awaitedPart (walletsLoaded w w2)) = []"
  by (simp_all add: awaitedPart_def walletsLoaded_def isAirdropCall_def fetchPair_def)

lemma createTree_quiet:
  assumes "createTree env c payer pair cd h = (r, t)"
  shows "awaitedPart t = t" and "obeys fetchPair [] t" and "r = Inr x \<Longrightarrow> pending [] t = []"
  using createTree_trace [of env c payer pair cd h] assms
  by (auto simp: createTreeShape_def Let_def awaitedPart_def isAirdropCall_def fetchPair_def)

lemma mint_quiet:
  assumes "mintCompressedNFT env c payer treeAddress h = (r, t)"
  shows "awaitedPart t = t" and "obeys fetchPair [] t" and "r = Inr x \<Longrightarrow> pending [] t = []"
  using mint_trace [of env c payer treeAddress h] assms
  by (auto simp: mintShape_def Let_def awaitedPart_def isAirdropCall_def fetchPair_def)

lemma shape_quiet:
  assumes "assetPhaseShape env c a signer msg txOK h r t"
  shows "awaitedPart t = t" and "obeys fetchPair [] t" and "r = Inr x \<Longrightarrow> pending [] t = []"
  using assms
  by (auto simp: assetPhaseShape_def Let_def fetched_def awaitedPart_def isAirdropCall_def
        fetchPair_def split: if_splits)

lemma transfer_quiet:
  assumes "transferCompressedNFT env c a sender receiver h = (r, t)"
  shows "awaitedPart t = t" and "obeys fetchPair [] t" and "r = Inr x \<Longrightarrow> pending [] t = []"
  using shape_quiet [OF transfer_trace [of env c a sender receiver h]] assms by simp_all

lemma burn_quiet:
  assumes "burnCompressedNFT env c a payer h = (r, t)"
  shows "awaitedPart t = t" and "obeys fetchPair [] t"
  using shape_quiet [OF burn_trace [of env c a payer h]] assms by simp_all

text \<open>
  C2, as the claim states it, fails. The call of \<^verbatim>\<open>airdropSolIfNeeded\<close> is not awaited,
  so the next request of \<open>main\<close> is issued while it is in flight; and the transfer and
  the burn issue \<^verbatim>\<open>getAsset\<close> and \<^verbatim>\<open>getAssetProof\<close> together, through
  \<^verbatim>\<open>Promise.all\<close>, the second before the first has completed.
\<close>

theorem requests_overlap_counterexample:
  "\<not> sequential (snd (main env0 []))
   \<and> \<not> sequential (snd (transferCompressedNFT env0 (devnet env0) (PublicKey [21])
                           wallet1 wallet2 []))"
proof (rule conjI)
  obtain w w2 treeAddress assetId1 assetId2 t1 t2 t3 t4 t5 where
    t: "snd (main env0 []) = walletsLoaded w w2 @ t1 @ t2 @ t3 @ t4 @ t5"
    and ct: "createTree env0 (devnet env0) w \<lparr>maxDepth = 3, maxBufferSize = 8\<rparr> 0
               ([] @ walletsLoaded w w2) = (Inr treeAddress, t1)"
    by (rule main_env0_run)
  from createTree_calls_alloc [OF ct] obtain q rest where "t1 = Call q # rest"
    by blast
  with t have "snd (main env0 []) = walletsLoaded w w2 @ Call q # (rest @ t2 @ t3 @ t4 @ t5)"
    by simp
  then show "\<not> sequential (snd (main env0 []))"
    by (simp only: not_sequential_after_airdrop not_False_eq_True)
next
  show "\<not> sequential (snd (transferCompressedNFT env0 (devnet env0) (PublicKey [21])
                            wallet1 wallet2 []))"
    by (rule not_sequential_two_calls [OF shape_fetches(1) [OF transfer_trace]])
qed

text \<open>
  C2, amended. Leaving aside the call of \<^verbatim>\<open>airdropSolIfNeeded\<close>, which \<open>main\<close> does
  not await, every request of a run of \<open>main\<close> is issued when no earlier request is in
  flight, except the request \<^verbatim>\<open>getAssetProof\<close> of a transfer or a burn, which is issued
  while the request \<^verbatim>\<open>getAsset\<close> for the same asset, and nothing else, is in flight;
  both have settled before the phase issues its next request.
\<close>

theorem awaited_requests_are_sequential:
  "sequentialButFetches (awaitedPart (snd (main env h)))"
proof -
  have "main env h = (fst (main env h), snd (main env h))" by simp
  from main_run [OF this] show ?thesis
  proof (elim disjE exE conjE)
    fix e
    assume "snd (main env h) = [Call (GetOrCreateKeypair ''Wallet_1''),
                                Rejected (GetOrCreateKeypair ''Wallet_1'') e]"
    then show ?thesis
      by (simp add: sequentialButFetches_def awaitedPart_def isAirdropCall_def fetchPair_def)
  next
    fix e w
    assume "snd (main env h) = [Call (GetOrCreateKeypair ''Wallet_1''),
                                Fulfilled (GetOrCreateKeypair ''Wallet_1'') (RKeypair w),
                                Call (GetOrCreateKeypair ''Wallet_2''),
                                Rejected (GetOrCreateKeypair ''Wallet_2'') e]"
    then show ?thesis
      by (simp add: sequentialButFetches_def awaitedPart_def isAirdropCall_def fetchPair_def)
  next
    fix w w2 e t1
    assume t: "snd (main env h) = walletsLoaded w w2 @ t1"
      and ct: "createTree env (devnet env) w \<lparr>maxDepth = 3, maxBufferSize = 8\<rparr> 0
                 (h @ walletsLoaded w w2) = (Inl e, t1)"
    show ?thesis
      by (simp add: sequentialButFetches_def t awaitedPart_append obeys_append wallets_quiet
            createTree_quiet(1,2) [OF ct])
  next
    fix w w2 treeAddress t1 e t2
    assume t: "snd (main env h) = walletsLoaded w w2 @ t1 @ t2"
      and ct: "createTree env (devnet env) w \<lparr>maxDepth = 3, maxBufferSize = 8\<rparr> 0
                 (h @ walletsLoaded w w2) = (Inr treeAddress, t1)"
      and m1: "mintCompressedNFT env (devnet env) w treeAddress
                 (h @ walletsLoaded w w2 @ t1) = (Inl e, t2)"
    show ?thesis
      by (simp add: sequentialButFetches_def t awaitedPart_append obeys_append pending_append
            wallets_quiet createTree_quiet [OF ct] mint_quiet(1,2) [OF m1])
  next
    fix w w2 treeAddress t1 assetId1 t2 e t3
    assume t: "snd (main env h) = walletsLoaded w w2 @ t1 @ t2 @ t3"
      and ct: "createTree env (devnet env) w \<lparr>maxDepth = 3, maxBufferSize = 8\<rparr> 0
                 (h @ walletsLoaded w w2) = (Inr treeAddress, t1)"
      and m1: "mintCompressedNFT env (devnet env) w treeAddress
                 (h @ walletsLoaded w w2 @ t1) = (Inr assetId1, t2)"
      and m2: "mintCompressedNFT env (devnet env) w treeAddress
                 (h @ walletsLoaded w w2 @ t1 @ t2) = (Inl e, t3)"
    show ?thesis
      by (simp add: sequentialButFetches_def t awaitedPart_append obeys_append pending_append
            wallets_quiet createTree_quiet [OF ct] mint_quiet [OF m1] mint_quiet(1,2) [OF m2])
  next
    fix w w2 treeAddress t1 assetId1 t2 assetId2 t3 e t4
    assume t: "snd (main env h) = walletsLoaded w w2 @ t1 @ t2 @ t3 @ t4"
      and ct: "createTree env (devnet env) w \<lparr>maxDepth = 3, maxBufferSize = 8\<rparr> 0
                 (h @ walletsLoaded w w2) = (Inr treeAddress, t1)"
      and m1: "mintCompressedNFT env (devnet env) w treeAddress
                 (h @ walletsLoaded w w2 @ t1) = (Inr assetId1, t2)"
      and m2: "mintCompressedNFT env (devnet env) w treeAddress
                 (h @ walletsLoaded w w2 @ t1 @ t2) = (Inr assetId2, t3)"
      and tr: "transferCompressedNFT env (devnet env) assetId1 w w2
                 (h @ walletsLoaded w w2 @ t1 @ t2 @ t3) = (Inl e, t4)"
    show ?thesis
      by (simp add: sequentialButFetches_def t awaitedPart_append obeys_append pending_append
            wallets_quiet createTree_quiet [OF ct] mint_quiet [OF m1] mint_quiet [OF m2]
            transfer_quiet(1,2) [OF tr])
  next
    fix w w2 treeAddress t1 assetId1 t2 assetId2 t3 t4 t5
    assume t: "snd (main env h) = walletsLoaded w w2 @ t1 @ t2 @ t3 @ t4 @ t5"
      and ct: "createTree env (devnet env) w \<lparr>maxDepth = 3, maxBufferSize = 8\<rparr> 0
                 (h @ walletsLoaded w w2) = (Inr treeAddress, t1)"
      and m1: "mintCompressedNFT env (devnet env) w treeAddress
                 (h @ walletsLoaded w w2 @ t1) = (Inr assetId1, t2)"
      and m2: "mintCompressedNFT env (devnet env) w treeAddress
                 (h @ walletsLoaded w w2 @ t1 @ t2) = (Inr assetId2, t3)"
      and tr: "transferCompressedNFT env (devnet env) assetId1 w w2
                 (h @ walletsLoaded w w2 @ t1 @ t2 @ t3) = (Inr (), t4)"
      and bu: "burnCompressedNFT env (devnet env) assetId2 w
                 (h @ walletsLoaded w w2 @ t1 @ t2 @ t3 @ t4) = (fst (main env h), t5)"
    show ?thesis
      by (simp add: sequentialButFetches_def t awaitedPart_append obeys_append pending_append
            wallets_quiet createTree_quiet [OF ct] mint_quiet [OF m1] mint_quiet [OF m2]
            transfer_quiet [OF tr] burn_quiet [OF bu])
  qed
qed

end
